theory Spec2Isabelle
  imports Main
begin

text \<open>
  The package \<open>run\<close> runs a command on the local host (through \<open>os/exec\<close>) or on a
  remote host (through \<open>ssh\<close>) and returns its standard output, its standard error,
  its exit code and an error. The functions of the package are embedded below as they
  are written; the operating system, the network and the two libraries are the
  surroundings, whose answers during one call are a parameter of each function and
  whose state (the log of calls, the writers, the open connections) is passed through.
\<close>

section \<open>Errors, streams and results\<close>

text \<open>
  A Go \<open>error\<close> value. The code distinguishes two dynamic types by a type switch:
  the exit errors of \<open>os/exec\<close> and of \<open>ssh\<close> (\<open>*exec.ExitError\<close>, \<open>*ssh.ExitError\<close>)
  and every other error. Each carries the text that \<open>err.Error()\<close> returns.
  A \<open>nil\<close> error is \<open>None\<close> of \<open>error option\<close>.
\<close>

datatype error = ExitError string | OtherError string

fun Error :: "error \<Rightarrow> string" where
  "Error (ExitError m) = m"
| "Error (OtherError m) = m"

text \<open>
  An \<open>io.Reader\<close> or \<open>io.Writer\<close> handed in by the caller is known by its identity;
  a \<open>nil\<close> stream is \<open>None\<close>.
\<close>

type_synonym reader = nat
type_synonym writer = nat

text \<open>The four values \<open>(string, string, int, error)\<close> every run returns.\<close>

type_synonym result = "string \<times> string \<times> int \<times> error option"

definition res_stdout :: "result \<Rightarrow> string" where
  "res_stdout r = fst r"

definition res_stderr :: "result \<Rightarrow> string" where
  "res_stderr r = fst (snd r)"

definition res_code :: "result \<Rightarrow> int" where
  "res_code r = fst (snd (snd r))"

definition res_err :: "result \<Rightarrow> error option" where
  "res_err r = snd (snd (snd r))"

section \<open>Decoding an exit status from an error text\<close>

definition is_digit :: "char \<Rightarrow> bool" where
  "is_digit c = (48 \<le> (of_char c :: nat) \<and> (of_char c :: nat) \<le> 57)"

definition digit_val :: "char \<Rightarrow> nat" where
  "digit_val c = (of_char c :: nat) - 48"

definition digit_char :: "nat \<Rightarrow> char" where
  "digit_char d = char_of (48 + d)"

text \<open>
  \<open>regexp.MustCompile("^" + pre + "([0-9]+)$").FindStringSubmatch(s)\<close> for a literal
  prefix \<open>pre\<close>: the text matches when it is the prefix followed by one or more ASCII
  digits up to the end of the text; the result is then the group \<open>match[1]\<close>, and
  \<open>None\<close> is Go's \<open>nil\<close> match.
\<close>

definition FindStringSubmatch :: "string \<Rightarrow> string \<Rightarrow> string option" where
  "FindStringSubmatch pre s =
     (if take (length pre) s = pre \<and> drop (length pre) s \<noteq> []
         \<and> list_all is_digit (drop (length pre) s)
      then Some (drop (length pre) s) else None)"

text \<open>
  \<open>strconv.Atoi\<close> on a 64-bit platform: an optional sign, then one or more decimal
  digits; a value outside \<open>int\<close> is a range error, anything else a syntax error.
\<close>

definition digits_val :: "string \<Rightarrow> nat" where
  "digits_val s = foldl (\<lambda>a c. 10 * a + digit_val c) 0 s"

definition Atoi_error :: "string \<Rightarrow> string \<Rightarrow> error" where
  "Atoi_error s why = OtherError (''strconv.Atoi: parsing \"'' @ s @ ''\": '' @ why)"

definition Atoi :: "string \<Rightarrow> error + int" where
  "Atoi s =
     (let neg = (s \<noteq> [] \<and> hd s = CHR ''-'');
          signed = (s \<noteq> [] \<and> (hd s = CHR ''-'' \<or> hd s = CHR ''+''));
          ds = (if signed then tl s else s)
      in if ds = [] \<or> \<not> list_all is_digit ds then Inl (Atoi_error s ''invalid syntax'')
         else if neg then
           (if digits_val ds \<le> 2 ^ 63 then Inr (- int (digits_val ds))
            else Inl (Atoi_error s ''value out of range''))
         else
           (if digits_val ds < 2 ^ 63 then Inr (int (digits_val ds))
            else Inl (Atoi_error s ''value out of range'')))"

text \<open>
  The \<open>switch err.(type)\<close> after \<open>cmd.Wait()\<close> (local) and after \<open>session.Run\<close>
  (remote); the two copies in the source differ only in the text the pattern expects.
  \<open>Inl e\<close> is the early \<open>return "", "", 0, e\<close>; \<open>Inr (code, err)\<close> are the values of
  the variables \<open>code\<close> and \<open>err\<close> with which the function goes on. An exit error
  whose text does not match leaves \<open>code\<close> at 0 and \<open>err\<close> as it is.
\<close>

fun decode_status :: "string \<Rightarrow> error option \<Rightarrow> error + (int \<times> error option)" where
  "decode_status pre None = Inr (0, None)"
| "decode_status pre (Some (ExitError m)) =
     (case FindStringSubmatch pre m of
        None \<Rightarrow> Inr (0, Some (ExitError m))
      | Some d \<Rightarrow> (case Atoi d of Inl e \<Rightarrow> Inl e | Inr n \<Rightarrow> Inr (n, None)))"
| "decode_status pre (Some (OtherError m)) = Inl (OtherError m)"

section \<open>The world outside the program\<close>

text \<open>
  What the code asks of \<open>os/exec\<close> and \<open>ssh\<close>, in the order it asks: each blocking
  call of the source appends one event. The code starts no goroutine of its own, so
  one call ends before the next begins.
\<close>

datatype wiring = Unset | ToPipe | ToWriter writer

record Cmd =
  Path :: string
  Args :: "string list"
  cmd_Env :: "string list option"
  cmd_Dir :: string
  cmd_Stdin :: "reader option"
  cmd_Stdout :: wiring
  cmd_Stderr :: wiring

datatype event =
    EvStdoutPipe
  | EvStderrPipe
  | EvStart Cmd
  | EvReadAllStdout
  | EvReadAllStderr
  | EvWait
  | EvDial string string
  | EvNewSession nat
  | EvSessionRun nat string
  | EvSessionClose nat

text \<open>
  The state outside the program: the log of events, the bytes each caller-supplied
  writer has received, and the handles of the client connections and of the sessions
  that are open.
\<close>

record world =
  trace :: "event list"
  sinks :: "writer \<Rightarrow> string"
  clients :: "nat list"
  sessions :: "nat list"

definition log_event :: "event \<Rightarrow> world \<Rightarrow> world" where
  "log_event e w = w\<lparr>trace := trace w @ [e]\<rparr>"

text \<open>
  The answers of the process (or of the remote session) during one call: whether each
  pipe could be made, whether the process started (\<open>Start_err\<close> is what \<open>cmd.Start()\<close>
  returns, the error of the path lookup of \<open>exec.Command\<close> included), the bytes it
  writes to its standard output and error, whether reading each pipe to its end
  succeeds, and what waiting for termination returns. Two answers are the library's:
  \<open>both_bytes\<close> is what a writer has received to which both streams are wired, and
  \<open>LookPath\<close> is \<open>exec.LookPath\<close>. The functions below give what a call returns when
  each of its blocking calls returns.
\<close>

record proc =
  StdoutPipe_err :: "error option"
  StderrPipe_err :: "error option"
  Start_err :: "error option"
  out_bytes :: string
  err_bytes :: string
  ReadAll_stdout_err :: "error option"
  ReadAll_stderr_err :: "error option"
  Wait_err :: "error option"
  both_bytes :: string
  LookPath :: "string \<Rightarrow> error + string"

text \<open>
  A stream wired to a writer of its own: by the time the wait for termination has
  returned, the library has written all the bytes of the stream to that writer. A
  stream wired to a pipe or left unset writes to no writer. When both streams are wired
  to one and the same writer, the program fixes no order between them: \<open>os/exec\<close> hands
  the command one descriptor for both, so the writer receives the bytes as the command
  wrote them, and \<open>ssh\<close> copies the two streams from two goroutines that nothing
  synchronises. What the writer has received then is the answer \<open>both_bytes\<close>.
\<close>

definition write_to :: "wiring \<Rightarrow> string \<Rightarrow> world \<Rightarrow> world" where
  "write_to wi bs w =
     (case wi of ToWriter k \<Rightarrow> w\<lparr>sinks := (sinks w)(k := sinks w k @ bs)\<rparr> | _ \<Rightarrow> w)"

definition deliver :: "wiring \<Rightarrow> wiring \<Rightarrow> proc \<Rightarrow> world \<Rightarrow> world" where
  "deliver so se p w =
     (case (so, se) of
        (ToWriter a, ToWriter b) \<Rightarrow>
          (if a = b then write_to so (both_bytes p) w
           else write_to se (err_bytes p) (write_to so (out_bytes p) w))
      | _ \<Rightarrow> write_to se (err_bytes p) (write_to so (out_bytes p) w))"

section \<open>The local executor\<close>

definition DefaultShellExecutable :: string where
  "DefaultShellExecutable = ''/bin/sh''"

record LocalConfig =
  lc_ShellExecutable :: string
  lc_Env :: "string list option"
  lc_Dir :: string
  lc_Stdin :: "reader option"
  lc_Stdout :: "writer option"
  lc_Stderr :: "writer option"

record Local =
  l_ShellExecutable :: string
  l_Env :: "string list option"
  l_Dir :: string
  l_Stdin :: "reader option"
  l_Stdout :: "writer option"
  l_Stderr :: "writer option"

text \<open>\<open>new(Local)\<close>: every field at its zero value.\<close>

definition new_Local :: Local where
  "new_Local = \<lparr>l_ShellExecutable = [], l_Env = None, l_Dir = [], l_Stdin = None,
                 l_Stdout = None, l_Stderr = None\<rparr>"

text \<open>
  \<open>NewLocal\<close>, statement by statement. The \<open>if\<close> that sets the default shell has no
  \<open>else\<close> branch in the source.
\<close>

definition NewLocal :: "LocalConfig \<Rightarrow> Local" where
  "NewLocal config =
     (let local0 = new_Local;
          local1 = (if length (lc_ShellExecutable config) = 0
                    then local0\<lparr>l_ShellExecutable := DefaultShellExecutable\<rparr>
                    else local0);
          local2 = local1\<lparr>l_Env := lc_Env config\<rparr>;
          local3 = local2\<lparr>l_Dir := lc_Dir config\<rparr>;
          local4 = local3\<lparr>l_Stdin := lc_Stdin config\<rparr>;
          local5 = local4\<lparr>l_Stdout := lc_Stdout config\<rparr>;
          local6 = local5\<lparr>l_Stderr := lc_Stderr config\<rparr>
      in local6)"

text \<open>The early \<open>return "", "", 0, err\<close>.\<close>

definition failed :: "error \<Rightarrow> result" where
  "failed e = ([], [], 0, Some e)"

text \<open>
  \<open>filepath.Base\<close> of the Go library on a Unix system: the last element of the path,
  trailing slashes removed first; \<open>.\<close> for the empty path and a single slash for a
  path of slashes only.
\<close>

definition filepath_Base :: "string \<Rightarrow> string" where
  "filepath_Base path =
     (if path = [] then ''.''
      else
       (let stripped = rev (dropWhile (\<lambda>c. c = CHR ''/'') (rev path));
            last_elem = rev (takeWhile (\<lambda>c. c \<noteq> CHR ''/'') (rev stripped))
        in if last_elem = [] then ''/'' else last_elem))"

text \<open>
  The path that \<open>exec.Command(name, ...)\<close> of the library stores in \<open>Cmd.Path\<close>: the
  name as given, unless the name is its own base (it holds no directory), in which case
  it is the file that \<open>LookPath\<close> finds for it, when it finds one.
\<close>

definition exec_Path :: "proc \<Rightarrow> string \<Rightarrow> string" where
  "exec_Path p name =
     (if filepath_Base name = name
      then (case LookPath p name of Inl err \<Rightarrow> name | Inr lp \<Rightarrow> lp)
      else name)"

text \<open>
  \<open>exec.Command(command, args...)\<close> followed by the assignments of \<open>Env\<close>, \<open>Dir\<close> and
  \<open>Stdin\<close>: the argument vector of the process is the command followed by the
  arguments, each as given, and the path is the one the library settles on.
\<close>

definition Command :: "Local \<Rightarrow> proc \<Rightarrow> string \<Rightarrow> string list \<Rightarrow> Cmd" where
  "Command l p command args =
     \<lparr>Path = exec_Path p command, Args = command # args, cmd_Env = l_Env l,
      cmd_Dir = l_Dir l, cmd_Stdin = l_Stdin l, cmd_Stdout = Unset, cmd_Stderr = Unset\<rparr>"

text \<open>
  \<open>Local.exec\<close> from the start of the process on: start, read the captured pipes to
  their end (standard output first, then standard error), wait, decode.
\<close>

definition Local_run_cmd :: "Local \<Rightarrow> proc \<Rightarrow> Cmd \<Rightarrow> world \<Rightarrow> result \<times> world" where
  "Local_run_cmd l p cmd w0 =
     (let w1 = log_event (EvStart cmd) w0 in
      case Start_err p of
        Some e \<Rightarrow> (failed e, w1)
      | None \<Rightarrow>
         (let w2 = (if l_Stdout l = None then log_event EvReadAllStdout w1 else w1) in
          if l_Stdout l = None \<and> ReadAll_stdout_err p \<noteq> None
          then (failed (the (ReadAll_stdout_err p)), w2)
          else
           (let stdoutBuf = (if l_Stdout l = None then out_bytes p else []);
                w3 = (if l_Stderr l = None then log_event EvReadAllStderr w2 else w2) in
            if l_Stderr l = None \<and> ReadAll_stderr_err p \<noteq> None
            then (failed (the (ReadAll_stderr_err p)), w3)
            else
             (let stderrBuf = (if l_Stderr l = None then err_bytes p else []);
                  w4 = deliver (cmd_Stdout cmd) (cmd_Stderr cmd) p (log_event EvWait w3) in
              case decode_status ''exit status '' (Wait_err p) of
                Inl e \<Rightarrow> (failed e, w4)
              | Inr (code, err) \<Rightarrow> ((stdoutBuf, stderrBuf, code, err), w4)))))"

text \<open>\<open>Local.exec\<close>: build the command, hook up the standard files, then run it.\<close>

definition Local_exec :: "Local \<Rightarrow> proc \<Rightarrow> world \<Rightarrow> string \<Rightarrow> string list \<Rightarrow> result \<times> world" where
  "Local_exec l p w command args =
     (let cmd0 = Command l p command args;
          w1 = (if l_Stdout l = None then log_event EvStdoutPipe w else w) in
      if l_Stdout l = None \<and> StdoutPipe_err p \<noteq> None
      then (failed (the (StdoutPipe_err p)), w1)
      else
       (let cmd1 = (case l_Stdout l of None \<Rightarrow> cmd0\<lparr>cmd_Stdout := ToPipe\<rparr>
                    | Some k \<Rightarrow> cmd0\<lparr>cmd_Stdout := ToWriter k\<rparr>);
            w2 = (if l_Stderr l = None then log_event EvStderrPipe w1 else w1) in
        if l_Stderr l = None \<and> StderrPipe_err p \<noteq> None
        then (failed (the (StderrPipe_err p)), w2)
        else
         (let cmd2 = (case l_Stderr l of None \<Rightarrow> cmd1\<lparr>cmd_Stderr := ToPipe\<rparr>
                      | Some k \<Rightarrow> cmd1\<lparr>cmd_Stderr := ToWriter k\<rparr>)
          in Local_run_cmd l p cmd2 w2)))"

definition Local_Run :: "Local \<Rightarrow> proc \<Rightarrow> world \<Rightarrow> string \<Rightarrow> string list \<Rightarrow> result \<times> world" where
  "Local_Run l p w cmd args = Local_exec l p w cmd args"

definition Local_Shell :: "Local \<Rightarrow> proc \<Rightarrow> world \<Rightarrow> string \<Rightarrow> result \<times> world" where
  "Local_Shell l p w cmd = Local_exec l p w (l_ShellExecutable l) [''-c'', cmd]"

text \<open>The standard runner and the package-level functions that delegate to it.\<close>

definition std :: Local where
  "std = NewLocal \<lparr>lc_ShellExecutable = [], lc_Env = None, lc_Dir = [], lc_Stdin = None,
                    lc_Stdout = None, lc_Stderr = None\<rparr>"

definition Run :: "proc \<Rightarrow> world \<Rightarrow> string \<Rightarrow> string list \<Rightarrow> result \<times> world" where
  "Run p w cmd args = Local_Run std p w cmd args"

definition Shell :: "proc \<Rightarrow> world \<Rightarrow> string \<Rightarrow> result \<times> world" where
  "Shell p w cmd = Local_Shell std p w cmd"

section \<open>Strings and paths\<close>

text \<open>\<open>strings.Join(elems, sep)\<close>.\<close>

fun Join :: "string list \<Rightarrow> string \<Rightarrow> string" where
  "Join [] sep = []"
| "Join [x] sep = x"
| "Join (x # y # ys) sep = x @ sep @ Join (y # ys) sep"

text \<open>The decimal text of a number, as \<open>%d\<close> and \<open>strconv.Itoa\<close> print it.\<close>

function itoa :: "nat \<Rightarrow> string" where
  "itoa n = (if n < 10 then [digit_char n] else itoa (n div 10) @ [digit_char (n mod 10)])"
  by pat_completeness auto
termination
  by (relation "measure id") auto

declare itoa.simps [simp del]

definition Itoa :: "int \<Rightarrow> string" where
  "Itoa i = (if i < 0 then CHR ''-'' # itoa (nat (- i)) else itoa (nat i))"

text \<open>
  \<open>filepath.Join\<close> of the Go library on a Unix system: the elements before the first
  non-empty one are dropped, the rest are joined by a slash and the result is cleaned;
  \<open>filepath.Clean\<close> removes empty and \<open>.\<close> elements, resolves each inner \<open>..\<close>
  against the element before it, drops a \<open>..\<close> that begins a rooted path, and turns
  the empty result into \<open>.\<close>.
\<close>

fun split_sep :: "char \<Rightarrow> string \<Rightarrow> string list" where
  "split_sep c [] = [[]]"
| "split_sep c (x # xs) =
     (if x = c then [] # split_sep c xs
      else (case split_sep c xs of [] \<Rightarrow> [[x]] | y # ys \<Rightarrow> (x # y) # ys))"

fun clean_elems :: "bool \<Rightarrow> string list \<Rightarrow> string list \<Rightarrow> string list" where
  "clean_elems rooted st [] = rev st"
| "clean_elems rooted st (e # es) =
     (if e = [] \<or> e = ''.'' then clean_elems rooted st es
      else if e = ''..'' then
        (if st \<noteq> [] \<and> hd st \<noteq> ''..'' then clean_elems rooted (tl st) es
         else if rooted then clean_elems rooted st es
         else clean_elems rooted (''..'' # st) es)
      else clean_elems rooted (e # st) es)"

definition Clean :: "string \<Rightarrow> string" where
  "Clean path =
     (if path = [] then ''.''
      else
       (let rooted = (hd path = CHR ''/'');
            out = (if rooted then ''/'' else []) @
                  Join (clean_elems rooted [] (split_sep CHR ''/'' path)) ''/''
        in if out = [] then ''.'' else out))"

definition filepath_Join :: "string list \<Rightarrow> string" where
  "filepath_Join elems =
     (case dropWhile (\<lambda>e. e = []) elems of [] \<Rightarrow> [] | es \<Rightarrow> Clean (Join es ''/''))"

section \<open>The remote executor\<close>

definition defaultSSHPort :: int where
  "defaultSSHPort = 22"

definition defaultSSHHostname :: string where
  "defaultSSHHostname = ''localhost''"

definition defaultSSHKeyfileName :: string where
  "defaultSSHKeyfileName = ''id_rsa''"

record Credentials =
  Hostname :: string
  Port :: int
  Username :: string
  Password :: string
  PrivateKeyFilename :: string

text \<open>The user database of the operating system, as \<open>os/user\<close> answers.\<close>

record User =
  u_Username :: string
  HomeDir :: string

record users =
  user_Current :: "error + User"
  user_Lookup :: "string \<Rightarrow> error + User"

definition defaultPrivateKeyFilename :: "users \<Rightarrow> string \<Rightarrow> error + string" where
  "defaultPrivateKeyFilename os username =
     (case user_Lookup os username of
        Inl err \<Rightarrow> Inl err
      | Inr user \<Rightarrow> Inr (filepath_Join [HomeDir user, ''.ssh'', defaultSSHKeyfileName]))"

record RemoteConfig =
  rc_ShellExecutable :: string
  rc_Stdin :: "reader option"
  rc_Stdout :: "writer option"
  rc_Stderr :: "writer option"
  rc_Credentials :: Credentials

text \<open>\<open>sshSession\<close> is the handle of the open session, \<open>None\<close> for \<open>nil\<close>.\<close>

record Remote =
  r_ShellExecutable :: string
  r_Stdin :: "reader option"
  r_Stdout :: "writer option"
  r_Stderr :: "writer option"
  r_Credentials :: Credentials
  sshSession :: "nat option"

text \<open>
  \<open>NewRemote\<close>: \<open>Inl err\<close> is the return \<open>nil, err\<close>, \<open>Inr r\<close> the return \<open>r, nil\<close>.
\<close>

definition NewRemote :: "users \<Rightarrow> RemoteConfig \<Rightarrow> error + Remote" where
  "NewRemote os config =
     (let r0 = \<lparr>r_ShellExecutable =
                  (if length (rc_ShellExecutable config) = 0 then DefaultShellExecutable
                   else rc_ShellExecutable config),
                r_Stdin = rc_Stdin config, r_Stdout = rc_Stdout config,
                r_Stderr = rc_Stderr config, r_Credentials = rc_Credentials config,
                sshSession = None\<rparr>;
          c0 = r_Credentials r0;
          c1 = (if Hostname c0 = [] then c0\<lparr>Hostname := defaultSSHHostname\<rparr> else c0);
          c2 = (if Port c1 = 0 then c1\<lparr>Port := defaultSSHPort\<rparr> else c1)
      in case (if Username c2 = []
               then (case user_Current os of
                       Inl err \<Rightarrow> Inl err
                     | Inr user \<Rightarrow> Inr (c2\<lparr>Username := u_Username user\<rparr>))
               else Inr c2) of
           Inl err \<Rightarrow> Inl err
         | Inr c3 \<Rightarrow>
            (if Password c3 = [] \<and> PrivateKeyFilename c3 = []
             then (case defaultPrivateKeyFilename os (Username c3) of
                     Inl err \<Rightarrow> Inl err
                   | Inr keyFilename \<Rightarrow>
                       Inr (r0\<lparr>r_Credentials := c3\<lparr>PrivateKeyFilename := keyFilename\<rparr>\<rparr>))
             else Inr (r0\<lparr>r_Credentials := c3\<rparr>)))"

text \<open>
  Authentication. A signer is known by its identity. The environment answers: the value
  of \<open>SSH_AUTH_SOCK\<close>, whether the agent's socket could be dialled, the signers the
  agent offers, the contents of a file, and the key parsed from such contents.
\<close>

type_synonym signer = nat

datatype AuthMethod = AuthPassword string | AuthPublicKeys "signer list"

record auth_env =
  Getenv_SSH_AUTH_SOCK :: string
  agent_Dial :: "string \<Rightarrow> error option"
  agent_Signers :: "error + signer list"
  ReadFile :: "string \<Rightarrow> error + string"
  ParsePrivateKey :: "string \<Rightarrow> error + signer"

definition getSSHAuths :: "Remote \<Rightarrow> auth_env \<Rightarrow> error + AuthMethod list" where
  "getSSHAuths r env =
     (if Password (r_Credentials r) \<noteq> [] then Inr [AuthPassword (Password (r_Credentials r))]
      else if Getenv_SSH_AUTH_SOCK env \<noteq> [] then
        (case agent_Dial env (Getenv_SSH_AUTH_SOCK env) of
           Some err \<Rightarrow> Inl err
         | None \<Rightarrow>
            (case agent_Signers env of
               Inl err \<Rightarrow> Inl err
             | Inr signers \<Rightarrow> Inr [AuthPublicKeys signers]))
      else
        (case ReadFile env (PrivateKeyFilename (r_Credentials r)) of
           Inl err \<Rightarrow>
             Inl (OtherError (''run: could not read private key file '' @ [CHR 39] @
                    PrivateKeyFilename (r_Credentials r) @ [CHR 39] @ '': '' @ Error err))
         | Inr keyBuf \<Rightarrow>
            (case ParsePrivateKey env keyBuf of
               Inl err \<Rightarrow>
                 Inl (OtherError (''run: could not use private key file '' @ [CHR 39] @
                        PrivateKeyFilename (r_Credentials r) @ [CHR 39] @ '': '' @ Error err))
             | Inr key \<Rightarrow> Inr [AuthPublicKeys [key]])))"

text \<open>
  The answers of the network during one call: those of authentication, whether the
  connection could be dialled, whether a session could be opened on it, what closing
  the session returns, and the answers of the remote command.
\<close>

record net =
  auth :: auth_env
  ssh_Dial_err :: "error option"
  NewSession_err :: "error option"
  Close_err :: "error option"
  session :: proc

text \<open>A handle that no open client or session has.\<close>

definition fresh :: "world \<Rightarrow> nat" where
  "fresh w = Suc (fold max (clients w @ sessions w) 0)"

text \<open>
  \<open>Remote.open\<close>. The client that \<open>ssh.Dial\<close> returns is a local variable of the
  function; the receiver keeps the session only.
\<close>

definition Remote_open :: "Remote \<Rightarrow> net \<Rightarrow> world \<Rightarrow> error option \<times> Remote \<times> world" where
  "Remote_open r n w =
     (case getSSHAuths r (auth n) of
        Inl err \<Rightarrow> (Some err, r, w)
      | Inr auths \<Rightarrow>
         (let c = r_Credentials r;
              w1 = log_event (EvDial (Username c) (Hostname c @ '':'' @ Itoa (Port c))) w in
          case ssh_Dial_err n of
            Some err \<Rightarrow>
              (Some (OtherError (''run: connection to '' @ Username c @ ''@'' @ Hostname c @
                       '' failed: '' @ Error err)), r, w1)
          | None \<Rightarrow>
             (let client = fresh w1;
                  w2 = w1\<lparr>clients := client # clients w1\<rparr> in
              case NewSession_err n of
                Some err \<Rightarrow> (Some err, r\<lparr>sshSession := None\<rparr>, w2)
              | None \<Rightarrow>
                 (let s = fresh w2;
                      w3 = log_event (EvNewSession s) (w2\<lparr>sessions := s # sessions w2\<rparr>)
                  in (None, r\<lparr>sshSession := Some s\<rparr>, w3)))))"

definition Remote_close :: "Remote \<Rightarrow> net \<Rightarrow> world \<Rightarrow> error option \<times> Remote \<times> world" where
  "Remote_close r n w =
     (case sshSession r of
        Some s \<Rightarrow>
          (Close_err n, r\<lparr>sshSession := None\<rparr>,
           log_event (EvSessionClose s) (w\<lparr>sessions := removeAll s (sessions w)\<rparr>))
      | None \<Rightarrow> (None, r, w))"

text \<open>
  \<open>Remote.exec\<close> after the pipes are hooked up: run the command line and wait for it,
  decode the status, then read the captured pipes. The variable \<open>err\<close> that the
  decoding leaves is assigned again by each \<open>ReadAll\<close> that runs. For a session,
  \<open>Wait_err\<close> is what the one call \<open>session.Run\<close> returns (it starts the command
  and waits for it), and \<open>Start_err\<close> is not asked.
\<close>

definition Remote_run_session ::
  "Remote \<Rightarrow> proc \<Rightarrow> nat \<Rightarrow> wiring \<Rightarrow> wiring \<Rightarrow> world \<Rightarrow> string list \<Rightarrow> result \<times> world" where
  "Remote_run_session r p s so se w0 args =
     (let cmdLine = Join args '' '';
          w1 = log_event (EvSessionRun s cmdLine) w0;
          w2 = deliver so se p w1 in
      case decode_status ''Process exited with status '' (Wait_err p) of
        Inl e \<Rightarrow> (failed e, w2)
      | Inr (code, err) \<Rightarrow>
         (let w3 = (if r_Stdout r = None then log_event EvReadAllStdout w2 else w2) in
          if r_Stdout r = None \<and> ReadAll_stdout_err p \<noteq> None
          then (failed (the (ReadAll_stdout_err p)), w3)
          else
           (let stdoutBuf = (if r_Stdout r = None then out_bytes p else []);
                err1 = (if r_Stdout r = None then None else err);
                w4 = (if r_Stderr r = None then log_event EvReadAllStderr w3 else w3) in
            if r_Stderr r = None \<and> ReadAll_stderr_err p \<noteq> None
            then (failed (the (ReadAll_stderr_err p)), w4)
            else
             (let stderrBuf = (if r_Stderr r = None then err_bytes p else []);
                  err2 = (if r_Stderr r = None then None else err1)
              in ((stdoutBuf, stderrBuf, code, err2), w4)))))"

text \<open>
  The body of \<open>Remote.exec\<close> that runs between a successful \<open>open\<close> and the deferred
  \<open>close\<close>. \<open>None\<close> as the result is the \<open>panic("Session == nil")\<close>.
\<close>

definition Remote_exec_body ::
  "Remote \<Rightarrow> net \<Rightarrow> world \<Rightarrow> string list \<Rightarrow> result option \<times> world" where
  "Remote_exec_body r n w args =
     (case sshSession r of
        None \<Rightarrow> (None, w)
      | Some s \<Rightarrow>
         (let p = session n;
              w1 = (if r_Stdout r = None then log_event EvStdoutPipe w else w) in
          if r_Stdout r = None \<and> StdoutPipe_err p \<noteq> None
          then (Some (failed (the (StdoutPipe_err p))), w1)
          else
           (let so = (case r_Stdout r of None \<Rightarrow> ToPipe | Some k \<Rightarrow> ToWriter k);
                w2 = (if r_Stderr r = None then log_event EvStderrPipe w1 else w1) in
            if r_Stderr r = None \<and> StderrPipe_err p \<noteq> None
            then (Some (failed (the (StderrPipe_err p))), w2)
            else
             (let se = (case r_Stderr r of None \<Rightarrow> ToPipe | Some k \<Rightarrow> ToWriter k);
                  (res, w3) = Remote_run_session r p s so se w2 args
              in (Some res, w3)))))"

text \<open>
  \<open>Remote.exec\<close>: when \<open>open\<close> fails the function returns before the \<open>defer\<close> is
  reached; otherwise \<open>close\<close> runs on every way out of the body, and its error is
  dropped.
\<close>

definition Remote_exec ::
  "Remote \<Rightarrow> net \<Rightarrow> world \<Rightarrow> string list \<Rightarrow> result option \<times> Remote \<times> world" where
  "Remote_exec r n w args =
     (case Remote_open r n w of
        (Some err, r1, w1) \<Rightarrow> (Some (failed err), r1, w1)
      | (None, r1, w1) \<Rightarrow>
         (let (res, w2) = Remote_exec_body r1 n w1 args;
              (cerr, r3, w3) = Remote_close r1 n w2
          in (res, r3, w3)))"

definition Remote_Run ::
  "Remote \<Rightarrow> net \<Rightarrow> world \<Rightarrow> string \<Rightarrow> string list \<Rightarrow> result option \<times> Remote \<times> world" where
  "Remote_Run r n w cmd args = Remote_exec r n w [cmd @ '' '' @ Join args '' '']"

definition Remote_Shell ::
  "Remote \<Rightarrow> net \<Rightarrow> world \<Rightarrow> string \<Rightarrow> result option \<times> Remote \<times> world" where
  "Remote_Shell r n w cmd =
     Remote_exec r n w [r_ShellExecutable r @ '' -c '' @ [CHR 34] @ cmd @ [CHR 34]]"

section \<open>Vocabulary of the properties\<close>

text \<open>
  The programs the operating system was asked to start, each with its path and its
  argument vector, and the command lines handed to a session, in the order of the log.
\<close>

fun started :: "event list \<Rightarrow> (string \<times> string list) list" where
  "started [] = []"
| "started (EvStart c # es) = (Path c, Args c) # started es"
| "started (e # es) = started es"

fun session_cmdLines :: "event list \<Rightarrow> string list" where
  "session_cmdLines [] = []"
| "session_cmdLines (EvSessionRun s c # es) = c # session_cmdLines es"
| "session_cmdLines (e # es) = session_cmdLines es"

text \<open>
  What the library's wait returns for a command that ran to its end and terminated
  normally with status \<open>n\<close>: no error for status 0, and otherwise an exit error whose
  text is \<open>exit status n\<close> (\<open>os/exec\<close>) or \<open>Process exited with status n\<close> (\<open>ssh\<close>).
\<close>

definition exited :: "string \<Rightarrow> nat \<Rightarrow> error option" where
  "exited pre n = (if n = 0 then None else Some (ExitError (pre @ itoa n)))"

text \<open>Every pipe that the call asks for can be made.\<close>

definition pipes_ok :: "writer option \<Rightarrow> writer option \<Rightarrow> proc \<Rightarrow> bool" where
  "pipes_ok out err p =
     ((out \<noteq> None \<or> StdoutPipe_err p = None) \<and> (err \<noteq> None \<or> StderrPipe_err p = None))"

text \<open>Every captured pipe can be read to its end.\<close>

definition reads_ok :: "writer option \<Rightarrow> writer option \<Rightarrow> proc \<Rightarrow> bool" where
  "reads_ok out err p =
     ((out \<noteq> None \<or> ReadAll_stdout_err p = None) \<and> (err \<noteq> None \<or> ReadAll_stderr_err p = None))"

text \<open>The wiring of a stream: the caller's writer when there is one, a pipe otherwise.\<close>

definition wire :: "writer option \<Rightarrow> wiring" where
  "wire k = (case k of None \<Rightarrow> ToPipe | Some x \<Rightarrow> ToWriter x)"


text \<open>The bytes a stream returns to the caller.\<close>

definition captured :: "writer option \<Rightarrow> string \<Rightarrow> string" where
  "captured sink bs = (if sink = None then bs else [])"

text \<open>
  The events of hooking up the standard files and of reading the captured pipes: one
  for each stream that has no writer, standard output before standard error.
\<close>

definition hook_events :: "writer option \<Rightarrow> writer option \<Rightarrow> event list" where
  "hook_events out err =
     (if out = None then [EvStdoutPipe] else []) @ (if err = None then [EvStderrPipe] else [])"

definition read_events :: "writer option \<Rightarrow> writer option \<Rightarrow> event list" where
  "read_events out err =
     (if out = None then [EvReadAllStdout] else []) @ (if err = None then [EvReadAllStderr] else [])"

text \<open>The command of a local call with its standard files hooked up.\<close>

definition wired_Cmd :: "Local \<Rightarrow> proc \<Rightarrow> string \<Rightarrow> string list \<Rightarrow> Cmd" where
  "wired_Cmd l p command args =
     (Command l p command args)
       \<lparr>cmd_Stdout := wire (l_Stdout l), cmd_Stderr := wire (l_Stderr l)\<rparr>"

text \<open>
  The remote call's dialling event, the world once the connection is dialled (the new
  client is open), and the world once the session is opened on it.
\<close>

definition dial_event :: "Remote \<Rightarrow> event" where
  "dial_event r =
     EvDial (Username (r_Credentials r))
       (Hostname (r_Credentials r) @ '':'' @ Itoa (Port (r_Credentials r)))"

definition dialled :: "Remote \<Rightarrow> world \<Rightarrow> world" where
  "dialled r w =
     (log_event (dial_event r) w)\<lparr>clients := fresh (log_event (dial_event r) w) # clients w\<rparr>"

definition opened :: "Remote \<Rightarrow> world \<Rightarrow> world" where
  "opened r w =
     log_event (EvNewSession (fresh (dialled r w)))
       ((dialled r w)\<lparr>sessions := fresh (dialled r w) # sessions w\<rparr>)"


text \<open>The world of a session once its command line has been run and waited for.\<close>

definition ran :: "Remote \<Rightarrow> proc \<Rightarrow> nat \<Rightarrow> string list \<Rightarrow> world \<Rightarrow> world" where
  "ran r p s args w =
     deliver (wire (r_Stdout r)) (wire (r_Stderr r)) p
       (w\<lparr>trace := trace w @ hook_events (r_Stdout r) (r_Stderr r) @
                      [EvSessionRun s (Join args '' '')]\<rparr>)"

text \<open>The world after the deferred \<open>close\<close> of session \<open>s\<close>.\<close>

definition closed :: "nat \<Rightarrow> world \<Rightarrow> world" where
  "closed s w = log_event (EvSessionClose s) (w\<lparr>sessions := removeAll s (sessions w)\<rparr>)"


text \<open>
  A command runs to its end: every pipe asked for is made, the process starts, every
  captured pipe is read to its end, and the wait reports a normal termination with a
  status \<open>k\<close> that Go's \<open>int\<close> holds. For a session the start is part of the one call
  that runs the command line.
\<close>

definition runs_to_end :: "writer option \<Rightarrow> writer option \<Rightarrow> proc \<Rightarrow> nat \<Rightarrow> bool" where
  "runs_to_end out err p k =
     (pipes_ok out err p \<and> Start_err p = None \<and> reads_ok out err p \<and>
      Wait_err p = exited ''exit status '' k \<and> k < 2 ^ 63)"

definition session_runs_to_end :: "writer option \<Rightarrow> writer option \<Rightarrow> proc \<Rightarrow> nat \<Rightarrow> bool" where
  "session_runs_to_end out err p k =
     (pipes_ok out err p \<and> reads_ok out err p \<and>
      Wait_err p = exited ''Process exited with status '' k \<and> k < 2 ^ 63)"

text \<open>Authentication, dialling and the opening of the session all succeed.\<close>

definition connects :: "Remote \<Rightarrow> net \<Rightarrow> bool" where
  "connects r n =
     ((case getSSHAuths r (auth n) of Inl e \<Rightarrow> False | Inr auths \<Rightarrow> True) \<and>
      ssh_Dial_err n = None \<and> NewSession_err n = None)"

text \<open>
  No read of a captured pipe comes after a wait for termination in the log: the
  pipes are drained before the program waits.
\<close>

fun is_wait :: "event \<Rightarrow> bool" where
  "is_wait EvWait = True"
| "is_wait (EvSessionRun s c) = True"
| "is_wait e = False"

fun is_read :: "event \<Rightarrow> bool" where
  "is_read EvReadAllStdout = True"
| "is_read EvReadAllStderr = True"
| "is_read e = False"

fun drained_before_wait :: "event list \<Rightarrow> bool" where
  "drained_before_wait [] = True"
| "drained_before_wait (e # es) =
     ((if is_wait e then list_all (\<lambda>x. \<not> is_read x) es else True) \<and> drained_before_wait es)"

text \<open>
  Among the events a call has added to the log, the last one closes a session that
  was opened among them.
\<close>

definition opened_and_closed :: "event list \<Rightarrow> event list \<Rightarrow> bool" where
  "opened_and_closed before after =
     (case drop (length before) after of
        [] \<Rightarrow> False
      | e # es \<Rightarrow>
         (case last (e # es) of
            EvSessionClose x \<Rightarrow> EvNewSession x \<in> set (e # es)
          | _ \<Rightarrow> False))"



text \<open>
  The account name a configuration resolves to: the configured one, or the name of the
  current user of the operating system when none is configured.
\<close>

definition resolved_Username :: "users \<Rightarrow> Credentials \<Rightarrow> error + string" where
  "resolved_Username os c =
     (if Username c = []
      then (case user_Current os of Inl e \<Rightarrow> Inl e | Inr u \<Rightarrow> Inr (u_Username u))
      else Inr (Username c))"

text \<open>The text of the error that wraps a failure on the key file with the file's path.\<close>

definition key_file_error :: "string \<Rightarrow> string \<Rightarrow> error \<Rightarrow> error" where
  "key_file_error what file e =
     OtherError (''run: could not '' @ what @ '' private key file '' @ [CHR 39] @ file @
                 [CHR 39] @ '': '' @ Error e)"

text \<open>
  A rooted path in clean form, given by its elements: each element follows a slash,
  is not empty, holds no slash and is neither \<open>.\<close> nor \<open>..\<close>.
\<close>

definition plain_elem :: "string \<Rightarrow> bool" where
  "plain_elem e = (e \<noteq> [] \<and> CHR ''/'' \<notin> set e \<and> e \<noteq> ''.'' \<and> e \<noteq> ''..'')"

definition abs_path :: "string list \<Rightarrow> string" where
  "abs_path es = concat (map (\<lambda>e. CHR ''/'' # e) es)"

section \<open>Example inputs\<close>

definition ex_world :: world where
  "ex_world = \<lparr>trace = [], sinks = (\<lambda>k. []), clients = [], sessions = []\<rparr>"

text \<open>The search path holds \<open>/bin\<close> only, where \<open>ls\<close> and \<open>sh\<close> are.\<close>

definition ex_LookPath :: "string \<Rightarrow> error + string" where
  "ex_LookPath name =
     (if name = ''ls'' \<or> name = ''sh'' then Inr (''/bin/'' @ name)
      else Inl (OtherError (''exec: '' @ name @ '': executable file not found in $PATH'')))"

text \<open>
  A command that writes to both streams and exits with status \<open>k\<close>; a writer wired to
  both streams receives the error text before the output.
\<close>

definition ex_proc :: "string \<Rightarrow> nat \<Rightarrow> proc" where
  "ex_proc pre k =
     \<lparr>StdoutPipe_err = None, StderrPipe_err = None, Start_err = None,
      out_bytes = ''/bin/true'', err_bytes = ''ls: cannot access /xyzzy'',
      ReadAll_stdout_err = None, ReadAll_stderr_err = None, Wait_err = exited pre k,
      both_bytes = ''ls: cannot access /xyzzy/bin/true'', LookPath = ex_LookPath\<rparr>"

text \<open>A program that cannot be started.\<close>

definition ex_proc_missing :: proc where
  "ex_proc_missing =
     \<lparr>StdoutPipe_err = None, StderrPipe_err = None,
      Start_err = Some (OtherError ''fork/exec /xyzzy: no such file or directory''),
      out_bytes = [], err_bytes = [],
      ReadAll_stdout_err = None, ReadAll_stderr_err = None, Wait_err = None,
      both_bytes = [], LookPath = ex_LookPath\<rparr>"

definition ex_LocalConfig :: LocalConfig where
  "ex_LocalConfig =
     \<lparr>lc_ShellExecutable = ''/bin/bash'', lc_Env = None, lc_Dir = [], lc_Stdin = None,
      lc_Stdout = None, lc_Stderr = None\<rparr>"


definition ex_users :: users where
  "ex_users =
     \<lparr>user_Current = Inr \<lparr>u_Username = ''alice'', HomeDir = ''/home/alice''\<rparr>,
      user_Lookup = (\<lambda>name. if name = ''alice''
                             then Inr \<lparr>u_Username = ''alice'', HomeDir = ''/home/alice''\<rparr>
                             else Inl (OtherError (''user: unknown user '' @ name)))\<rparr>"

text \<open>A machine on which neither the current user nor any other user can be looked up.\<close>

definition ex_users_none :: users where
  "ex_users_none =
     \<lparr>user_Current = Inl (OtherError ''user: Current not implemented''),
      user_Lookup = (\<lambda>name. Inl (OtherError (''user: unknown user '' @ name)))\<rparr>"

definition ex_RemoteConfig :: RemoteConfig where
  "ex_RemoteConfig =
     \<lparr>rc_ShellExecutable = [], rc_Stdin = None, rc_Stdout = None, rc_Stderr = None,
      rc_Credentials = \<lparr>Hostname = [], Port = 0, Username = [], Password = [],
                         PrivateKeyFilename = []\<rparr>\<rparr>"

definition ex_Remote :: Remote where
  "ex_Remote =
     \<lparr>r_ShellExecutable = ''/bin/sh'', r_Stdin = None, r_Stdout = None, r_Stderr = None,
      r_Credentials = \<lparr>Hostname = ''localhost'', Port = 22, Username = ''alice'',
                        Password = [], PrivateKeyFilename = ''/home/alice/.ssh/id_rsa''\<rparr>,
      sshSession = None\<rparr>"

text \<open>A remote executor that sends standard output to writer 1 and captures standard error.\<close>

definition ex_Remote_sink :: Remote where
  "ex_Remote_sink = ex_Remote\<lparr>r_Stdout := Some 1\<rparr>"

text \<open>No agent; the key file of alice can be read and holds a key.\<close>

definition ex_auth :: auth_env where
  "ex_auth =
     \<lparr>Getenv_SSH_AUTH_SOCK = [],
      agent_Dial = (\<lambda>sock. Some (OtherError ''dial unix: no such file or directory'')),
      agent_Signers = Inr [],
      ReadFile = (\<lambda>name. if name = ''/home/alice/.ssh/id_rsa'' then Inr ''KEY''
                          else Inl (OtherError (''open '' @ name @ '': no such file or directory''))),
      ParsePrivateKey = (\<lambda>buf. if buf = ''KEY'' then Inr 7
                                else Inl (OtherError ''ssh: no key found''))\<rparr>"

text \<open>An agent is set and cannot be reached, while the key file is as before.\<close>

definition ex_auth_agent_down :: auth_env where
  "ex_auth_agent_down = ex_auth\<lparr>Getenv_SSH_AUTH_SOCK := ''/tmp/agent.sock''\<rparr>"

definition ex_net :: "nat \<Rightarrow> net" where
  "ex_net k =
     \<lparr>auth = ex_auth, ssh_Dial_err = None, NewSession_err = None, Close_err = None,
      session = ex_proc ''Process exited with status '' k\<rparr>"

text \<open>The remote side answers the run with an error that is no exit error.\<close>

definition ex_net_broken :: net where
  "ex_net_broken =
     \<lparr>auth = ex_auth, ssh_Dial_err = None, NewSession_err = None, Close_err = None,
      session = (ex_proc ''Process exited with status '' 0)
                  \<lparr>Wait_err := Some (OtherError ''wait: remote command exited without exit status'')\<rparr>\<rparr>"


text \<open>The key file of alice holds no key.\<close>

definition ex_auth_bad_key :: auth_env where
  "ex_auth_bad_key = ex_auth\<lparr>ReadFile := (\<lambda>name. Inr ''garbage'')\<rparr>"

text \<open>An agent is set, can be reached and offers two identities.\<close>

definition ex_auth_agent :: auth_env where
  "ex_auth_agent =
     ex_auth\<lparr>Getenv_SSH_AUTH_SOCK := ''/tmp/agent.sock'', agent_Dial := (\<lambda>sock. None),
             agent_Signers := Inr [3, 4]\<rparr>"

definition ex_Remote_password :: Remote where
  "ex_Remote_password =
     ex_Remote\<lparr>r_Credentials := (r_Credentials ex_Remote)\<lparr>Password := ''secret''\<rparr>\<rparr>"

definition ex_Remote_no_key :: Remote where
  "ex_Remote_no_key =
     ex_Remote\<lparr>r_Credentials := (r_Credentials ex_Remote)\<lparr>PrivateKeyFilename := ''/nokey''\<rparr>\<rparr>"

text \<open>A configuration that names a user the machine does not know, and one with a password.\<close>

definition ex_RemoteConfig_bob :: RemoteConfig where
  "ex_RemoteConfig_bob =
     ex_RemoteConfig\<lparr>rc_Credentials := (rc_Credentials ex_RemoteConfig)\<lparr>Username := ''bob''\<rparr>\<rparr>"

definition ex_RemoteConfig_password :: RemoteConfig where
  "ex_RemoteConfig_password =
     \<lparr>rc_ShellExecutable = ''/bin/bash'', rc_Stdin = None, rc_Stdout = Some 1, rc_Stderr = None,
      rc_Credentials = \<lparr>Hostname = ''example.org'', Port = 2222, Username = ''bob'',
                         Password = ''secret'', PrivateKeyFilename = []\<rparr>\<rparr>"




section \<open>Auxiliary facts\<close>

lemma failed_fields [simp]:
  "res_err (failed e) = Some e" "res_code (failed e) = 0"
  "res_stdout (failed e) = []" "res_stderr (failed e) = []"
  by (simp_all add: failed_def res_err_def res_code_def res_stdout_def res_stderr_def)

lemma res_fields [simp]:
  "res_stdout (a, b, c, d) = a" "res_stderr (a, b, c, d) = b"
  "res_code (a, b, c, d) = c" "res_err (a, b, c, d) = d"
  by (simp_all add: res_err_def res_code_def res_stdout_def res_stderr_def)

lemma log_event_fields [simp]:
  "trace (log_event e w) = trace w @ [e]" "sinks (log_event e w) = sinks w"
  "clients (log_event e w) = clients w" "sessions (log_event e w) = sessions w"
  by (simp_all add: log_event_def)

lemma write_to_fields [simp]:
  "trace (write_to wi bs w) = trace w" "clients (write_to wi bs w) = clients w"
  "sessions (write_to wi bs w) = sessions w"
  by (simp_all add: write_to_def split: wiring.splits)


lemma deliver_fields [simp]:
  "trace (deliver so se p w) = trace w" "clients (deliver so se p w) = clients w"
  "sessions (deliver so se p w) = sessions w"
  by (simp_all add: deliver_def split: wiring.splits)


lemma NewLocal_fields:
  "l_ShellExecutable (NewLocal config) = (if lc_ShellExecutable config = [] then ''/bin/sh'' else [])"
  "l_Env (NewLocal config) = lc_Env config" "l_Dir (NewLocal config) = lc_Dir config"
  "l_Stdin (NewLocal config) = lc_Stdin config" "l_Stdout (NewLocal config) = lc_Stdout config"
  "l_Stderr (NewLocal config) = lc_Stderr config"
  by (simp_all add: NewLocal_def new_Local_def DefaultShellExecutable_def Let_def)

lemma started_append: "started (xs @ ys) = started xs @ started ys"
  by (induction xs rule: started.induct) simp_all

lemma session_cmdLines_append:
  "session_cmdLines (xs @ ys) = session_cmdLines xs @ session_cmdLines ys"
  by (induction xs rule: session_cmdLines.induct) simp_all

lemma decode_status_err_code:
  "decode_status pre e = Inr (code, err) \<Longrightarrow> err = None \<or> code = 0"
  by (cases "(pre, e)" rule: decode_status.cases)
     (auto split: option.splits sum.splits)

section \<open>The local call, path by path\<close>

lemma Local_exec_hooked:
  assumes "pipes_ok (l_Stdout l) (l_Stderr l) p"
  shows "Local_exec l p w c a =
           Local_run_cmd l p (wired_Cmd l p c a)
             (w\<lparr>trace := trace w @ hook_events (l_Stdout l) (l_Stderr l)\<rparr>)"
  using assms
  by (cases "l_Stdout l"; cases "l_Stderr l")
     (simp_all add: Local_exec_def pipes_ok_def wired_Cmd_def hook_events_def wire_def
        log_event_def Let_def)

lemma Local_exec_stdout_pipe_failed:
  assumes "l_Stdout l = None" "StdoutPipe_err p = Some e"
  shows "Local_exec l p w c a = (failed e, log_event EvStdoutPipe w)"
  using assms by (simp add: Local_exec_def)

lemma Local_exec_stderr_pipe_failed:
  assumes "l_Stdout l \<noteq> None \<or> StdoutPipe_err p = None"
    and "l_Stderr l = None" "StderrPipe_err p = Some e"
  shows "Local_exec l p w c a =
           (failed e, w\<lparr>trace := trace w @ hook_events (l_Stdout l) (l_Stderr l)\<rparr>)"
proof (cases "l_Stdout l")
  case None
  with assms show ?thesis
    by (simp add: Local_exec_def hook_events_def log_event_def)
next
  case (Some k)
  with assms show ?thesis
    by (simp add: Local_exec_def hook_events_def log_event_def)
qed

lemma not_pipes_ok_cases:
  assumes "\<not> pipes_ok out err p"
  obtains e where "out = None" "StdoutPipe_err p = Some e"
  | e where "out \<noteq> None \<or> StdoutPipe_err p = None" "err = None" "StderrPipe_err p = Some e"
  using assms unfolding pipes_ok_def by blast

lemma started_hook_events [simp]: "started (hook_events out err) = []"
  by (simp add: hook_events_def)

lemma Local_exec_unhooked:
  assumes "\<not> pipes_ok (l_Stdout l) (l_Stderr l) p"
  shows "\<exists>e. fst (Local_exec l p w c a) = failed e"
    and "started (trace (snd (Local_exec l p w c a))) = started (trace w)"
    and "sinks (snd (Local_exec l p w c a)) = sinks w"
proof -
  from assms have
    "(\<exists>e. fst (Local_exec l p w c a) = failed e) \<and>
     started (trace (snd (Local_exec l p w c a))) = started (trace w) \<and>
     sinks (snd (Local_exec l p w c a)) = sinks w"
  proof (cases rule: not_pipes_ok_cases)
    case (1 e)
    then show ?thesis
      by (auto simp add: Local_exec_stdout_pipe_failed started_append)
  next
    case (2 e)
    then show ?thesis
      by (auto simp add: Local_exec_stderr_pipe_failed started_append)
  qed
  then show "\<exists>e. fst (Local_exec l p w c a) = failed e"
    and "started (trace (snd (Local_exec l p w c a))) = started (trace w)"
    and "sinks (snd (Local_exec l p w c a)) = sinks w"
    by blast+
qed

lemma Local_run_cmd_not_started:
  assumes "Start_err p = Some e"
  shows "Local_run_cmd l p cmd w = (failed e, log_event (EvStart cmd) w)"
  using assms by (simp add: Local_run_cmd_def Let_def)

lemma Local_run_cmd_read_failed:
  assumes "Start_err p = None" "\<not> reads_ok (l_Stdout l) (l_Stderr l) p"
  shows "\<exists>e. fst (Local_run_cmd l p cmd w) = failed e"
  using assms
  by (cases "l_Stdout l"; cases "l_Stderr l")
     (auto simp add: Local_run_cmd_def reads_ok_def Let_def)

lemma Local_run_cmd_waited:
  assumes "Start_err p = None" "reads_ok (l_Stdout l) (l_Stderr l) p"
  shows "Local_run_cmd l p cmd w =
    ((case decode_status ''exit status '' (Wait_err p) of
        Inl e \<Rightarrow> failed e
      | Inr (code, err) \<Rightarrow>
          (captured (l_Stdout l) (out_bytes p), captured (l_Stderr l) (err_bytes p), code, err)),
     deliver (cmd_Stdout cmd) (cmd_Stderr cmd) p
       (w\<lparr>trace := trace w @ [EvStart cmd] @ read_events (l_Stdout l) (l_Stderr l) @ [EvWait]\<rparr>))"
  using assms
  by (cases "l_Stdout l"; cases "l_Stderr l")
     (simp_all add: Local_run_cmd_def reads_ok_def read_events_def captured_def log_event_def
        Let_def split: sum.splits prod.splits)

lemma Local_run_cmd_started:
  "started (trace (snd (Local_run_cmd l p cmd w))) = started (trace w) @ [(Path cmd, Args cmd)]"
  by (cases "l_Stdout l"; cases "l_Stderr l")
     (simp_all add: Local_run_cmd_def Let_def started_append
        split: option.splits sum.splits prod.splits)

section \<open>Decimal texts\<close>

lemma digit_char_is_digit: "d < 10 \<Longrightarrow> is_digit (digit_char d)"
  by (simp add: is_digit_def digit_char_def)

lemma digit_val_digit_char: "d < 10 \<Longrightarrow> digit_val (digit_char d) = d"
  by (simp add: digit_val_def digit_char_def)

lemma is_digit_not_sign: "is_digit c \<Longrightarrow> c \<noteq> CHR ''-'' \<and> c \<noteq> CHR ''+''"
  by (auto simp add: is_digit_def)

lemma itoa_digits: "list_all is_digit (itoa n)"
proof (induction n rule: itoa.induct)
  case (1 n)
  show ?case
  proof (cases "n < 10")
    case True
    then show ?thesis by (simp add: itoa.simps [of n] digit_char_is_digit)
  next
    case False
    with 1 have "list_all is_digit (itoa (n div 10))" by simp
    moreover have "is_digit (digit_char (n mod 10))" by (simp add: digit_char_is_digit)
    ultimately show ?thesis using False by (simp add: itoa.simps [of n])
  qed
qed

lemma itoa_nonempty: "itoa n \<noteq> []"
  by (simp add: itoa.simps [of n])

lemma digits_val_snoc: "digits_val (xs @ [c]) = 10 * digits_val xs + digit_val c"
  by (simp add: digits_val_def)

lemma digits_val_itoa: "digits_val (itoa n) = n"
proof (induction n rule: itoa.induct)
  case (1 n)
  show ?case
  proof (cases "n < 10")
    case True
    then show ?thesis
      by (simp add: itoa.simps [of n] digits_val_def digit_val_digit_char)
  next
    case False
    with 1 have "digits_val (itoa (n div 10)) = n div 10" by simp
    then show ?thesis using False
      by (simp add: itoa.simps [of n] digits_val_snoc digit_val_digit_char)
  qed
qed

lemma hd_itoa_not_sign: "hd (itoa n) \<noteq> CHR ''-'' \<and> hd (itoa n) \<noteq> CHR ''+''"
proof -
  from itoa_digits [of n] itoa_nonempty [of n] have "is_digit (hd (itoa n))"
    by (cases "itoa n") simp_all
  then show ?thesis by (rule is_digit_not_sign)
qed

lemma Atoi_itoa:
  assumes "n < 2 ^ 63"
  shows "Atoi (itoa n) = Inr (int n)"
  using assms hd_itoa_not_sign [of n] itoa_digits [of n] itoa_nonempty [of n]
  by (simp add: Atoi_def digits_val_itoa Let_def)

lemma FindStringSubmatch_itoa: "FindStringSubmatch pre (pre @ itoa n) = Some (itoa n)"
  by (simp add: FindStringSubmatch_def itoa_digits itoa_nonempty)

lemma decode_status_exited:
  assumes "n < 2 ^ 63"
  shows "decode_status pre (exited pre n) = Inr (int n, None)"
  using assms by (simp add: exited_def FindStringSubmatch_itoa Atoi_itoa)

section \<open>The remote call, path by path\<close>

lemma fold_max_ge: "x \<in> set xs \<Longrightarrow> x \<le> fold max xs (a::nat)"
proof -
  assume "x \<in> set xs"
  then have "x \<le> Max (set (a # xs))" by (intro Max_ge) simp_all
  then show ?thesis by (simp only: Max.set_eq_fold)
qed

lemma fresh_notin: "fresh w \<notin> set (clients w)" "fresh w \<notin> set (sessions w)"
proof -
  have "x < fresh w" if "x \<in> set (clients w @ sessions w)" for x
    using fold_max_ge [OF that, of 0] by (simp add: fresh_def)
  then show "fresh w \<notin> set (clients w)" "fresh w \<notin> set (sessions w)"
    by fastforce+
qed

lemma Remote_open_auth_failed:
  assumes "getSSHAuths r (auth n) = Inl e"
  shows "Remote_open r n w = (Some e, r, w)"
  using assms by (simp add: Remote_open_def)

lemma Remote_open_dial_failed:
  assumes "getSSHAuths r (auth n) = Inr auths" "ssh_Dial_err n = Some e"
  shows "Remote_open r n w =
    (Some (OtherError (''run: connection to '' @ Username (r_Credentials r) @ ''@'' @
             Hostname (r_Credentials r) @ '' failed: '' @ Error e)),
     r, log_event (dial_event r) w)"
  using assms by (simp add: Remote_open_def dial_event_def Let_def)

lemma Remote_open_session_failed:
  assumes "getSSHAuths r (auth n) = Inr auths" "ssh_Dial_err n = None" "NewSession_err n = Some e"
  shows "Remote_open r n w = (Some e, r\<lparr>sshSession := None\<rparr>, dialled r w)"
  using assms by (simp add: Remote_open_def dial_event_def dialled_def Let_def)

lemma Remote_open_opened:
  assumes "getSSHAuths r (auth n) = Inr auths" "ssh_Dial_err n = None" "NewSession_err n = None"
  shows "Remote_open r n w =
    (None, r\<lparr>sshSession := Some (fresh (dialled r w))\<rparr>, opened r w)"
  using assms by (simp add: Remote_open_def dial_event_def dialled_def opened_def Let_def)

lemma dialled_fields [simp]:
  "trace (dialled r w) = trace w @ [dial_event r]" "sinks (dialled r w) = sinks w"
  "clients (dialled r w) = fresh w # clients w" "sessions (dialled r w) = sessions w"
  by (simp_all add: dialled_def fresh_def)

lemma opened_fields [simp]:
  "trace (opened r w) = trace w @ [dial_event r, EvNewSession (fresh (dialled r w))]"
  "sinks (opened r w) = sinks w"
  "clients (opened r w) = fresh w # clients w"
  "sessions (opened r w) = fresh (dialled r w) # sessions w"
  by (simp_all add: opened_def)

lemma ran_fields [simp]:
  "trace (ran r p s args w) =
     trace w @ hook_events (r_Stdout r) (r_Stderr r) @ [EvSessionRun s (Join args '' '')]"
  "clients (ran r p s args w) = clients w" "sessions (ran r p s args w) = sessions w"
  by (simp_all add: ran_def)


lemma closed_fields [simp]:
  "trace (closed s w) = trace w @ [EvSessionClose s]" "sinks (closed s w) = sinks w"
  "clients (closed s w) = clients w" "sessions (closed s w) = removeAll s (sessions w)"
  by (simp_all add: closed_def)

lemma Remote_close_closed:
  assumes "sshSession r = Some s"
  shows "Remote_close r n w = (Close_err n, r\<lparr>sshSession := None\<rparr>, closed s w)"
  using assms by (simp add: Remote_close_def closed_def)

lemma Remote_run_session_undecoded:
  assumes "decode_status ''Process exited with status '' (Wait_err p) = Inl e"
  shows "Remote_run_session r p s so se w args =
           (failed e, deliver so se p (log_event (EvSessionRun s (Join args '' '')) w))"
  using assms by (simp add: Remote_run_session_def Let_def)

lemma Remote_run_session_read_failed:
  assumes "decode_status ''Process exited with status '' (Wait_err p) = Inr ce"
    and "\<not> reads_ok (r_Stdout r) (r_Stderr r) p"
  shows "\<exists>e. fst (Remote_run_session r p s so se w args) = failed e"
  using assms
  by (cases "r_Stdout r"; cases "r_Stderr r"; cases ce)
     (auto simp add: Remote_run_session_def reads_ok_def Let_def)

lemma Remote_run_session_decoded:
  assumes "decode_status ''Process exited with status '' (Wait_err p) = Inr (code, err)"
    and "reads_ok (r_Stdout r) (r_Stderr r) p"
  shows "Remote_run_session r p s so se w args =
    ((captured (r_Stdout r) (out_bytes p), captured (r_Stderr r) (err_bytes p), code,
      (if r_Stdout r = None \<or> r_Stderr r = None then None else err)),
     (let w2 = deliver so se p (log_event (EvSessionRun s (Join args '' '')) w)
      in w2\<lparr>trace := trace w2 @ read_events (r_Stdout r) (r_Stderr r)\<rparr>))"
  using assms
  by (cases "r_Stdout r"; cases "r_Stderr r")
     (simp_all add: Remote_run_session_def reads_ok_def read_events_def captured_def
        log_event_def Let_def)

lemma Remote_run_session_world:
  "clients (snd (Remote_run_session r p s so se w args)) = clients w"
  "sessions (snd (Remote_run_session r p s so se w args)) = sessions w"
  by (cases "r_Stdout r"; cases "r_Stderr r";
      simp add: Remote_run_session_def Let_def split: sum.splits prod.splits)+

lemma Remote_exec_body_hooked:
  assumes "sshSession r = Some s" "pipes_ok (r_Stdout r) (r_Stderr r) (session n)"
  shows "Remote_exec_body r n w args =
    (Some (fst (Remote_run_session r (session n) s (wire (r_Stdout r)) (wire (r_Stderr r))
                  (w\<lparr>trace := trace w @ hook_events (r_Stdout r) (r_Stderr r)\<rparr>) args)),
     snd (Remote_run_session r (session n) s (wire (r_Stdout r)) (wire (r_Stderr r))
            (w\<lparr>trace := trace w @ hook_events (r_Stdout r) (r_Stderr r)\<rparr>) args))"
  using assms
  by (cases "r_Stdout r"; cases "r_Stderr r")
     (simp_all add: Remote_exec_body_def pipes_ok_def hook_events_def wire_def log_event_def
        Let_def split: prod.splits)

lemma Remote_exec_body_stdout_pipe_failed:
  assumes "sshSession r = Some s" "r_Stdout r = None" "StdoutPipe_err (session n) = Some e"
  shows "Remote_exec_body r n w args = (Some (failed e), log_event EvStdoutPipe w)"
  using assms by (simp add: Remote_exec_body_def)

lemma Remote_exec_body_stderr_pipe_failed:
  assumes "sshSession r = Some s"
    and "r_Stdout r \<noteq> None \<or> StdoutPipe_err (session n) = None"
    and "r_Stderr r = None" "StderrPipe_err (session n) = Some e"
  shows "Remote_exec_body r n w args =
           (Some (failed e), w\<lparr>trace := trace w @ hook_events (r_Stdout r) (r_Stderr r)\<rparr>)"
proof (cases "r_Stdout r")
  case None
  with assms show ?thesis
    by (simp add: Remote_exec_body_def hook_events_def log_event_def)
next
  case (Some k)
  with assms show ?thesis
    by (simp add: Remote_exec_body_def hook_events_def log_event_def)
qed

lemma session_cmdLines_hook_events [simp]: "session_cmdLines (hook_events out err) = []"
  by (simp add: hook_events_def)

lemma session_cmdLines_read_events [simp]: "session_cmdLines (read_events out err) = []"
  by (simp add: read_events_def)

lemma started_read_events [simp]: "started (read_events out err) = []"
  by (simp add: read_events_def)

lemma Remote_exec_body_unhooked:
  assumes "sshSession r = Some s" "\<not> pipes_ok (r_Stdout r) (r_Stderr r) (session n)"
  shows "(\<exists>e. fst (Remote_exec_body r n w args) = Some (failed e)) \<and>
         session_cmdLines (trace (snd (Remote_exec_body r n w args))) = session_cmdLines (trace w) \<and>
         sinks (snd (Remote_exec_body r n w args)) = sinks w \<and>
         clients (snd (Remote_exec_body r n w args)) = clients w \<and>
         sessions (snd (Remote_exec_body r n w args)) = sessions w"
  using assms(2)
proof (cases rule: not_pipes_ok_cases)
  case (1 e)
  with assms(1) show ?thesis
    by (auto simp add: Remote_exec_body_stdout_pipe_failed session_cmdLines_append)
next
  case (2 e)
  with assms(1) show ?thesis
    by (auto simp add: Remote_exec_body_stderr_pipe_failed session_cmdLines_append)
qed

lemma Remote_exec_body_world:
  assumes "sshSession r = Some s"
  shows "clients (snd (Remote_exec_body r n w args)) = clients w"
    and "sessions (snd (Remote_exec_body r n w args)) = sessions w"
proof -
  have "clients (snd (Remote_exec_body r n w args)) = clients w \<and>
        sessions (snd (Remote_exec_body r n w args)) = sessions w"
  proof (cases "pipes_ok (r_Stdout r) (r_Stderr r) (session n)")
    case True
    with assms show ?thesis
      by (simp add: Remote_exec_body_hooked Remote_run_session_world)
  next
    case False
    with assms Remote_exec_body_unhooked [of r s n w args] show ?thesis by blast
  qed
  then show "clients (snd (Remote_exec_body r n w args)) = clients w"
    and "sessions (snd (Remote_exec_body r n w args)) = sessions w"
    by simp_all
qed

lemma Remote_exec_not_opened:
  assumes "Remote_open r n w = (Some e, r1, w1)"
  shows "Remote_exec r n w args = (Some (failed e), r1, w1)"
  using assms by (simp add: Remote_exec_def)

lemma Remote_exec_opened:
  assumes "Remote_open r n w = (None, r1, w1)" "sshSession r1 = Some s"
  shows "Remote_exec r n w args =
    (fst (Remote_exec_body r1 n w1 args), r1\<lparr>sshSession := None\<rparr>,
     closed s (snd (Remote_exec_body r1 n w1 args)))"
  using assms
  by (simp add: Remote_exec_def Remote_close_closed Let_def split: prod.splits)

section \<open>What a call starts and returns\<close>

lemma wired_Cmd_fields [simp]:
  "Path (wired_Cmd l p c a) = exec_Path p c" "Args (wired_Cmd l p c a) = c # a"
  "cmd_Stdout (wired_Cmd l p c a) = wire (l_Stdout l)"
  "cmd_Stderr (wired_Cmd l p c a) = wire (l_Stderr l)"
  by (simp_all add: wired_Cmd_def Command_def)

lemma Local_exec_started:
  "started (trace (snd (Local_exec l p w c a))) =
     started (trace w) @
     (if pipes_ok (l_Stdout l) (l_Stderr l) p then [(exec_Path p c, c # a)] else [])"
proof (cases "pipes_ok (l_Stdout l) (l_Stderr l) p")
  case True
  then show ?thesis
    by (simp add: Local_exec_hooked Local_run_cmd_started started_append)
next
  case False
  then show ?thesis
    by (simp add: Local_exec_unhooked(2))
qed

lemma Local_exec_completed:
  assumes "pipes_ok (l_Stdout l) (l_Stderr l) p" "Start_err p = None"
    and "reads_ok (l_Stdout l) (l_Stderr l) p"
    and "decode_status ''exit status '' (Wait_err p) = Inr (code, err)"
  shows "Local_exec l p w c a =
    ((captured (l_Stdout l) (out_bytes p), captured (l_Stderr l) (err_bytes p), code, err),
     deliver (wire (l_Stdout l)) (wire (l_Stderr l)) p
       (w\<lparr>trace := trace w @ hook_events (l_Stdout l) (l_Stderr l) @
                      [EvStart (wired_Cmd l p c a)] @ read_events (l_Stdout l) (l_Stderr l) @
                      [EvWait]\<rparr>))"
  using assms by (simp add: Local_exec_hooked Local_run_cmd_waited)

lemma Local_exec_failed_or_completed:
  "(\<exists>e. fst (Local_exec l p w c a) = failed e) \<or>
   (\<exists>code err. Local_exec l p w c a =
      ((captured (l_Stdout l) (out_bytes p), captured (l_Stderr l) (err_bytes p), code, err),
       deliver (wire (l_Stdout l)) (wire (l_Stderr l)) p
         (w\<lparr>trace := trace w @ hook_events (l_Stdout l) (l_Stderr l) @
                        [EvStart (wired_Cmd l p c a)] @ read_events (l_Stdout l) (l_Stderr l) @
                        [EvWait]\<rparr>)) \<and> (err = None \<or> code = 0))"
proof (cases "pipes_ok (l_Stdout l) (l_Stderr l) p")
  case False
  then show ?thesis using Local_exec_unhooked(1) by blast
next
  case True
  note hooked = this
  show ?thesis
  proof (cases "Start_err p")
    case (Some e)
    with hooked show ?thesis
      by (auto simp add: Local_exec_hooked Local_run_cmd_not_started)
  next
    case None
    note started = this
    show ?thesis
    proof (cases "reads_ok (l_Stdout l) (l_Stderr l) p")
      case False
      with hooked started Local_run_cmd_read_failed [of p l "wired_Cmd l p c a"] show ?thesis
        by (auto simp add: Local_exec_hooked)
    next
      case True
      note read = this
      show ?thesis
      proof (cases "decode_status ''exit status '' (Wait_err p)")
        case (Inl e)
        with hooked started read show ?thesis
          by (auto simp add: Local_exec_hooked Local_run_cmd_waited)
      next
        case (Inr ce)
        obtain code err where ce: "ce = (code, err)" by (cases ce)
        with Inr have d: "decode_status ''exit status '' (Wait_err p) = Inr (code, err)"
          by simp
        from decode_status_err_code [OF d] have "err = None \<or> code = 0" .
        with Local_exec_completed [OF hooked started read d, of w c a] show ?thesis
          by blast
      qed
    qed
  qed
qed

lemma connects_cases:
  assumes "connects r n"
  obtains auths where "getSSHAuths r (auth n) = Inr auths" "ssh_Dial_err n = None"
    "NewSession_err n = None"
  using assms unfolding connects_def by (cases "getSSHAuths r (auth n)") simp_all

lemma not_connects_cases:
  assumes "\<not> connects r n"
  obtains e where "getSSHAuths r (auth n) = Inl e"
  | auths e where "getSSHAuths r (auth n) = Inr auths" "ssh_Dial_err n = Some e"
  | auths e where "getSSHAuths r (auth n) = Inr auths" "ssh_Dial_err n = None"
      "NewSession_err n = Some e"
  using assms unfolding connects_def
  by (cases "getSSHAuths r (auth n)"; cases "ssh_Dial_err n"; cases "NewSession_err n") simp_all

lemma Remote_exec_connected:
  assumes "connects r n"
  shows "Remote_exec r n w args =
    (fst (Remote_exec_body (r\<lparr>sshSession := Some (fresh (dialled r w))\<rparr>) n (opened r w) args),
     r\<lparr>sshSession := None\<rparr>,
     closed (fresh (dialled r w))
       (snd (Remote_exec_body (r\<lparr>sshSession := Some (fresh (dialled r w))\<rparr>) n (opened r w) args)))"
  using assms
proof (cases rule: connects_cases)
  case (1 auths)
  then have "Remote_open r n w =
      (None, r\<lparr>sshSession := Some (fresh (dialled r w))\<rparr>, opened r w)"
    by (rule Remote_open_opened)
  then show ?thesis
    by (simp add: Remote_exec_opened [where s = "fresh (dialled r w)"])
qed

lemma Remote_exec_not_connected:
  assumes "\<not> connects r n"
  shows "(\<exists>e. fst (Remote_exec r n w args) = Some (failed e)) \<and>
         session_cmdLines (trace (snd (snd (Remote_exec r n w args)))) = session_cmdLines (trace w) \<and>
         sinks (snd (snd (Remote_exec r n w args))) = sinks w \<and>
         sessions (snd (snd (Remote_exec r n w args))) = sessions w \<and>
         (sshSession r = None \<longrightarrow> sshSession (fst (snd (Remote_exec r n w args))) = None)"
  using assms
proof (cases rule: not_connects_cases)
  case (1 e)
  then have "Remote_exec r n w args = (Some (failed e), r, w)"
    by (simp add: Remote_exec_not_opened Remote_open_auth_failed)
  then show ?thesis by auto
next
  case (2 auths e)
  from Remote_open_dial_failed [OF 2] obtain e' where
    "Remote_open r n w = (Some e', r, log_event (dial_event r) w)" by blast
  then have "Remote_exec r n w args = (Some (failed e'), r, log_event (dial_event r) w)"
    by (rule Remote_exec_not_opened)
  then show ?thesis by (auto simp add: session_cmdLines_append dial_event_def)
next
  case (3 auths e)
  then have "Remote_exec r n w args = (Some (failed e), r\<lparr>sshSession := None\<rparr>, dialled r w)"
    by (simp add: Remote_exec_not_opened Remote_open_session_failed)
  then show ?thesis by (auto simp add: session_cmdLines_append dial_event_def)
qed

lemma Remote_run_session_cmdLines:
  "session_cmdLines (trace (snd (Remote_run_session r p s so se w args))) =
     session_cmdLines (trace w) @ [Join args '' '']"
  by (cases "r_Stdout r"; cases "r_Stderr r")
     (simp_all add: Remote_run_session_def Let_def session_cmdLines_append
        split: sum.splits prod.splits)

lemma Remote_exec_cmdLines:
  "session_cmdLines (trace (snd (snd (Remote_exec r n w args)))) =
     session_cmdLines (trace w) @
     (if connects r n \<and> pipes_ok (r_Stdout r) (r_Stderr r) (session n)
      then [Join args '' ''] else [])"
proof (cases "connects r n")
  case False
  with Remote_exec_not_connected [OF False, of w args] show ?thesis by simp
next
  case True
  let ?s = "fresh (dialled r w)"
  let ?r = "r\<lparr>sshSession := Some ?s\<rparr>"
  have s: "sshSession ?r = Some ?s" by simp
  show ?thesis
  proof (cases "pipes_ok (r_Stdout r) (r_Stderr r) (session n)")
    case True
    then have "pipes_ok (r_Stdout ?r) (r_Stderr ?r) (session n)" by simp
    from Remote_exec_body_hooked [OF s this, of "opened r w" args] \<open>connects r n\<close> True
    show ?thesis
      by (simp add: Remote_exec_connected Remote_run_session_cmdLines session_cmdLines_append
            dial_event_def)
  next
    case False
    then have "\<not> pipes_ok (r_Stdout ?r) (r_Stderr ?r) (session n)" by simp
    from Remote_exec_body_unhooked [OF s this, of "opened r w" args] \<open>connects r n\<close> False
    show ?thesis
      by (simp add: Remote_exec_connected session_cmdLines_append dial_event_def)
  qed
qed

lemma removeAll_fresh: "removeAll (fresh (dialled r w)) (sessions w) = sessions w"
  using fresh_notin(2) [of "dialled r w"] by simp

lemma Remote_exec_sessions:
  "sessions (snd (snd (Remote_exec r n w args))) = sessions w"
proof (cases "connects r n")
  case False
  with Remote_exec_not_connected [OF False, of w args] show ?thesis by simp
next
  case True
  let ?s = "fresh (dialled r w)"
  let ?r = "r\<lparr>sshSession := Some ?s\<rparr>"
  have s: "sshSession ?r = Some ?s" by simp
  from True Remote_exec_body_world(2) [OF s, of n "opened r w" args] show ?thesis
    by (simp add: Remote_exec_connected removeAll_fresh)
qed

lemma Remote_exec_session_field:
  assumes "sshSession r = None"
  shows "sshSession (fst (snd (Remote_exec r n w args))) = None"
proof (cases "connects r n")
  case False
  with Remote_exec_not_connected [OF False, of w args] assms show ?thesis by simp
next
  case True
  then show ?thesis by (simp add: Remote_exec_connected)
qed

lemma Remote_exec_clients:
  assumes "connects r n"
  shows "clients (snd (snd (Remote_exec r n w args))) = fresh w # clients w"
proof -
  let ?s = "fresh (dialled r w)"
  let ?r = "r\<lparr>sshSession := Some ?s\<rparr>"
  have s: "sshSession ?r = Some ?s" by simp
  from assms Remote_exec_body_world(1) [OF s, of n "opened r w" args] show ?thesis
    by (simp add: Remote_exec_connected)
qed

lemma Remote_exec_completed:
  assumes "connects r n" "pipes_ok (r_Stdout r) (r_Stderr r) (session n)"
    and "reads_ok (r_Stdout r) (r_Stderr r) (session n)"
    and "decode_status ''Process exited with status '' (Wait_err (session n)) = Inr (code, err)"
  shows "Remote_exec r n w args =
    (Some (captured (r_Stdout r) (out_bytes (session n)),
           captured (r_Stderr r) (err_bytes (session n)), code,
           (if r_Stdout r = None \<or> r_Stderr r = None then None else err)),
     r\<lparr>sshSession := None\<rparr>,
     closed (fresh (dialled r w))
       ((ran r (session n) (fresh (dialled r w)) args (opened r w))
          \<lparr>trace := trace (ran r (session n) (fresh (dialled r w)) args (opened r w)) @
                      read_events (r_Stdout r) (r_Stderr r)\<rparr>))"
proof -
  let ?s = "fresh (dialled r w)"
  let ?r = "r\<lparr>sshSession := Some ?s\<rparr>"
  have s: "sshSession ?r = Some ?s" by simp
  have h: "pipes_ok (r_Stdout ?r) (r_Stderr ?r) (session n)" using assms(2) by simp
  have rd: "reads_ok (r_Stdout ?r) (r_Stderr ?r) (session n)" using assms(3) by simp
  from Remote_exec_body_hooked [OF s h, of "opened r w" args]
    Remote_run_session_decoded [OF assms(4) rd]
  have "Remote_exec_body ?r n (opened r w) args =
    (Some (captured (r_Stdout r) (out_bytes (session n)),
           captured (r_Stderr r) (err_bytes (session n)), code,
           (if r_Stdout r = None \<or> r_Stderr r = None then None else err)),
     (ran r (session n) ?s args (opened r w))
          \<lparr>trace := trace (ran r (session n) ?s args (opened r w)) @
                      read_events (r_Stdout r) (r_Stderr r)\<rparr>)"
    by (simp add: ran_def log_event_def Let_def)
  with assms(1) show ?thesis
    by (simp add: Remote_exec_connected)
qed

lemma Remote_exec_failed_or_completed:
  "(\<exists>e. fst (Remote_exec r n w args) = Some (failed e)) \<or>
   (\<exists>code err. Remote_exec r n w args =
      (Some (captured (r_Stdout r) (out_bytes (session n)),
             captured (r_Stderr r) (err_bytes (session n)), code,
             (if r_Stdout r = None \<or> r_Stderr r = None then None else err)),
       r\<lparr>sshSession := None\<rparr>,
       closed (fresh (dialled r w))
         ((ran r (session n) (fresh (dialled r w)) args (opened r w))
            \<lparr>trace := trace (ran r (session n) (fresh (dialled r w)) args (opened r w)) @
                        read_events (r_Stdout r) (r_Stderr r)\<rparr>)) \<and>
      (err = None \<or> code = 0))"
proof (cases "connects r n")
  case False
  with Remote_exec_not_connected [OF False, of w args] show ?thesis by blast
next
  case True
  note conn = this
  let ?s = "fresh (dialled r w)"
  let ?r = "r\<lparr>sshSession := Some ?s\<rparr>"
  let ?p = "session n"
  have s: "sshSession ?r = Some ?s" by simp
  show ?thesis
  proof (cases "pipes_ok (r_Stdout r) (r_Stderr r) ?p")
    case False
    then have "\<not> pipes_ok (r_Stdout ?r) (r_Stderr ?r) ?p" by simp
    from Remote_exec_body_unhooked [OF s this, of "opened r w" args] conn show ?thesis
      by (auto simp add: Remote_exec_connected)
  next
    case True
    note hooked = this
    then have h: "pipes_ok (r_Stdout ?r) (r_Stderr ?r) ?p" by simp
    note body = Remote_exec_body_hooked [OF s h, of "opened r w" args]
    show ?thesis
    proof (cases "decode_status ''Process exited with status '' (Wait_err ?p)")
      case (Inl e)
      from body Remote_run_session_undecoded [OF Inl] conn show ?thesis
        by (auto simp add: Remote_exec_connected)
    next
      case (Inr ce)
      obtain code err where ce: "ce = (code, err)" by (cases ce)
      with Inr have d: "decode_status ''Process exited with status '' (Wait_err ?p) = Inr (code, err)"
        by simp
      show ?thesis
      proof (cases "reads_ok (r_Stdout r) (r_Stderr r) ?p")
        case False
        then have "\<not> reads_ok (r_Stdout ?r) (r_Stderr ?r) ?p" by simp
        from Remote_run_session_read_failed [OF d this] body conn show ?thesis
          by (auto simp add: Remote_exec_connected)
      next
        case True
        from decode_status_err_code [OF d] have "err = None \<or> code = 0" .
        with Remote_exec_completed [OF conn hooked True d, of w args] show ?thesis
          by blast
      qed
    qed
  qed
qed

lemma Remote_exec_err_code:
  "case fst (Remote_exec r n w args) of None \<Rightarrow> False
   | Some res \<Rightarrow> res_err res = None \<or> res_code res = 0"
  using Remote_exec_failed_or_completed [of r n w args] by auto

lemma Local_exec_err_code:
  "res_err (fst (Local_exec l p w c a)) = None \<or> res_code (fst (Local_exec l p w c a)) = 0"
  using Local_exec_failed_or_completed [of l p w c a] by auto

section \<open>Facts about the example inputs\<close>

lemma std_fields:
  "l_ShellExecutable std = ''/bin/sh''" "l_Stdout std = None" "l_Stderr std = None"
  by (simp_all add: std_def NewLocal_def new_Local_def DefaultShellExecutable_def)

lemma ex_world_fields:
  "trace ex_world = []" "sinks ex_world k = []" "clients ex_world = []" "sessions ex_world = []"
  by (simp_all add: ex_world_def)

lemma ex_proc_ok:
  "pipes_ok out err (ex_proc pre k)" "reads_ok out err (ex_proc pre k)"
  "Start_err (ex_proc pre k) = None" "Wait_err (ex_proc pre k) = exited pre k"
  by (simp_all add: pipes_ok_def reads_ok_def ex_proc_def)

lemma ex_auth_key:
  "getSSHAuths ex_Remote ex_auth = Inr [AuthPublicKeys [7]]"
  "getSSHAuths ex_Remote_sink ex_auth = Inr [AuthPublicKeys [7]]"
  by (simp_all add: getSSHAuths_def ex_Remote_sink_def ex_Remote_def ex_auth_def)

lemma ex_connects: "connects ex_Remote (ex_net k)" "connects ex_Remote_sink (ex_net k)"
  by (simp_all add: connects_def ex_net_def ex_auth_key)

lemma ex_session: "session (ex_net k) = ex_proc ''Process exited with status '' k"
  by (simp add: ex_net_def)

lemma ex_Remote_fields:
  "r_Stdout ex_Remote = None" "r_Stderr ex_Remote = None" "sshSession ex_Remote = None"
  "r_ShellExecutable ex_Remote = ''/bin/sh''"
  "r_Stdout ex_Remote_sink = Some 1" "r_Stderr ex_Remote_sink = None"
  by (simp_all add: ex_Remote_def ex_Remote_sink_def)

lemma Remote_exec_undecoded:
  assumes "connects r n" "pipes_ok (r_Stdout r) (r_Stderr r) (session n)"
    and "decode_status ''Process exited with status '' (Wait_err (session n)) = Inl e"
  shows "fst (Remote_exec r n w args) = Some (failed e)"
proof -
  let ?s = "fresh (dialled r w)"
  let ?r = "r\<lparr>sshSession := Some ?s\<rparr>"
  have s: "sshSession ?r = Some ?s" by simp
  have h: "pipes_ok (r_Stdout ?r) (r_Stderr ?r) (session n)" using assms(2) by simp
  from Remote_exec_body_hooked [OF s h, of "opened r w" args] assms(1) show ?thesis
    by (simp add: Remote_exec_connected Remote_run_session_undecoded [OF assms(3)])
qed

lemma ex_proc_missing_fields:
  "pipes_ok out err ex_proc_missing"
  "Start_err ex_proc_missing = Some (OtherError ''fork/exec /xyzzy: no such file or directory'')"
  by (simp_all add: pipes_ok_def ex_proc_missing_def)

lemma ex_net_broken_fields:
  "connects ex_Remote ex_net_broken"
  "pipes_ok out err (session ex_net_broken)"
  "Wait_err (session ex_net_broken) =
     Some (OtherError ''wait: remote command exited without exit status'')"
  by (simp_all add: connects_def ex_net_broken_def ex_auth_key pipes_ok_def ex_proc_def)

lemma ex_runs_to_end:
  "k < 2 ^ 63 \<Longrightarrow> runs_to_end out err (ex_proc ''exit status '' k) k"
  "k < 2 ^ 63 \<Longrightarrow> session_runs_to_end out err (session (ex_net k)) k"
  by (simp_all add: runs_to_end_def session_runs_to_end_def ex_proc_ok ex_session)

lemma Remote_exec_completed_trace:
  assumes "connects r n" "pipes_ok (r_Stdout r) (r_Stderr r) (session n)"
    and "reads_ok (r_Stdout r) (r_Stderr r) (session n)"
    and "decode_status ''Process exited with status '' (Wait_err (session n)) = Inr (code, err)"
  shows "trace (snd (snd (Remote_exec r n w args))) =
    trace w @ [dial_event r, EvNewSession (fresh (dialled r w))] @
    hook_events (r_Stdout r) (r_Stderr r) @
    [EvSessionRun (fresh (dialled r w)) (Join args '' '')] @
    read_events (r_Stdout r) (r_Stderr r) @ [EvSessionClose (fresh (dialled r w))]"
  by (simp add: Remote_exec_completed [OF assms])

lemma Remote_run_session_trace:
  "\<exists>es. trace (snd (Remote_run_session r p s so se w args)) =
         trace w @ EvSessionRun s (Join args '' '') # es"
  by (cases "r_Stdout r"; cases "r_Stderr r")
     (simp_all add: Remote_run_session_def Let_def split: sum.splits prod.splits)

lemma Remote_exec_body_trace:
  assumes "sshSession r = Some s"
  shows "\<exists>es. trace (snd (Remote_exec_body r n w args)) = trace w @ es"
proof (cases "pipes_ok (r_Stdout r) (r_Stderr r) (session n)")
  case True
  from Remote_run_session_trace
    [of r "session n" s "wire (r_Stdout r)" "wire (r_Stderr r)"
        "w\<lparr>trace := trace w @ hook_events (r_Stdout r) (r_Stderr r)\<rparr>" args]
  show ?thesis
    by (auto simp add: Remote_exec_body_hooked [OF assms True])
next
  case False
  then show ?thesis
  proof (cases rule: not_pipes_ok_cases)
    case (1 e)
    with assms show ?thesis
      by (simp add: Remote_exec_body_stdout_pipe_failed)
  next
    case (2 e)
    with assms show ?thesis
      by (simp add: Remote_exec_body_stderr_pipe_failed)
  qed
qed

lemma Remote_exec_opened_and_closed:
  assumes "connects r n"
  shows "opened_and_closed (trace w) (trace (snd (snd (Remote_exec r n w args))))"
proof -
  let ?s = "fresh (dialled r w)"
  let ?r = "r\<lparr>sshSession := Some ?s\<rparr>"
  have s: "sshSession ?r = Some ?s" by simp
  from Remote_exec_body_trace [OF s, of n "opened r w" args] obtain es where
    "trace (snd (Remote_exec_body ?r n (opened r w) args)) = trace (opened r w) @ es"
    by blast
  with assms have
    "trace (snd (snd (Remote_exec r n w args))) =
       trace w @ dial_event r # EvNewSession ?s # es @ [EvSessionClose ?s]"
    by (simp add: Remote_exec_connected)
  then show ?thesis
    by (simp add: opened_and_closed_def)
qed

lemma NewRemote_session_nil:
  "case NewRemote os config of Inl e \<Rightarrow> True | Inr r \<Rightarrow> sshSession r = None"
  by (simp add: NewRemote_def Let_def split: sum.splits)

lemma fresh_ex_world: "fresh ex_world = 1"
  by (simp add: fresh_def ex_world_def)

lemma ex_decoded:
  "k < 2 ^ 63 \<Longrightarrow>
   decode_status ''Process exited with status '' (Wait_err (session (ex_net k))) = Inr (int k, None)"
  by (simp add: ex_session ex_proc_ok decode_status_exited)

lemma Local_exec_waited_trace:
  assumes "pipes_ok (l_Stdout l) (l_Stderr l) p" "Start_err p = None"
    and "reads_ok (l_Stdout l) (l_Stderr l) p"
  shows "trace (snd (Local_exec l p w c a)) =
    trace w @ hook_events (l_Stdout l) (l_Stderr l) @ [EvStart (wired_Cmd l p c a)] @
    read_events (l_Stdout l) (l_Stderr l) @ [EvWait]"
  using assms by (simp add: Local_exec_hooked Local_run_cmd_waited)









lemma NewRemote_resolved:
  "NewRemote os config =
    (case resolved_Username os (rc_Credentials config) of
       Inl e \<Rightarrow> Inl e
     | Inr name \<Rightarrow>
        (if Password (rc_Credentials config) = [] \<and> PrivateKeyFilename (rc_Credentials config) = []
         then (case user_Lookup os name of
                 Inl e \<Rightarrow> Inl e
               | Inr u \<Rightarrow>
                  Inr \<lparr>r_ShellExecutable =
                         (if rc_ShellExecutable config = [] then ''/bin/sh''
                          else rc_ShellExecutable config),
                       r_Stdin = rc_Stdin config, r_Stdout = rc_Stdout config,
                       r_Stderr = rc_Stderr config,
                       r_Credentials =
                         \<lparr>Hostname = (if Hostname (rc_Credentials config) = [] then ''localhost''
                                       else Hostname (rc_Credentials config)),
                          Port = (if Port (rc_Credentials config) = 0 then 22
                                  else Port (rc_Credentials config)),
                          Username = name, Password = [],
                          PrivateKeyFilename = filepath_Join [HomeDir u, ''.ssh'', ''id_rsa'']\<rparr>,
                       sshSession = None\<rparr>)
         else Inr \<lparr>r_ShellExecutable =
                     (if rc_ShellExecutable config = [] then ''/bin/sh''
                      else rc_ShellExecutable config),
                   r_Stdin = rc_Stdin config, r_Stdout = rc_Stdout config,
                   r_Stderr = rc_Stderr config,
                   r_Credentials =
                     \<lparr>Hostname = (if Hostname (rc_Credentials config) = [] then ''localhost''
                                   else Hostname (rc_Credentials config)),
                      Port = (if Port (rc_Credentials config) = 0 then 22
                              else Port (rc_Credentials config)),
                      Username = name, Password = Password (rc_Credentials config),
                      PrivateKeyFilename = PrivateKeyFilename (rc_Credentials config)\<rparr>,
                   sshSession = None\<rparr>))"
proof (cases "rc_Credentials config")
  case (fields host port user pw key)
  show ?thesis
  proof (cases "user = []")
    case True
    show ?thesis
    proof (cases "user_Current os")
      case (Inl e)
      with fields True show ?thesis
        by (simp add: NewRemote_def resolved_Username_def Let_def)
    next
      case (Inr cu)
      with fields True show ?thesis
        by (cases "user_Lookup os (u_Username cu)")
           (simp_all add: NewRemote_def resolved_Username_def defaultPrivateKeyFilename_def
              Let_def DefaultShellExecutable_def defaultSSHHostname_def defaultSSHPort_def
              defaultSSHKeyfileName_def)
    qed
  next
    case False
    with fields show ?thesis
      by (cases "user_Lookup os user")
         (simp_all add: NewRemote_def resolved_Username_def defaultPrivateKeyFilename_def
            Let_def DefaultShellExecutable_def defaultSSHHostname_def defaultSSHPort_def
            defaultSSHKeyfileName_def)
  qed
qed

section \<open>Clean paths\<close>

lemma split_sep_nonempty: "split_sep c xs \<noteq> []"
  by (induction xs) (simp_all split: list.splits)

lemma split_sep_append:
  "c \<notin> set e \<Longrightarrow>
   split_sep c (e @ xs) = (e @ hd (split_sep c xs)) # tl (split_sep c xs)"
proof (induction e)
  case Nil
  then show ?case using split_sep_nonempty [of c xs] by simp
next
  case (Cons x e)
  then show ?case by auto
qed

lemma split_sep_abs_path:
  "list_all (\<lambda>e. c \<notin> set e) es \<Longrightarrow>
   split_sep c (concat (map (\<lambda>e. c # e) es)) = [] # es"
proof (induction es)
  case Nil
  then show ?case by simp
next
  case (Cons e es)
  then show ?case by (simp add: split_sep_append)
qed

lemma clean_elems_plain:
  "list_all plain_elem es \<Longrightarrow> clean_elems rooted st es = rev st @ es"
proof (induction es arbitrary: st)
  case Nil
  then show ?case by simp
next
  case (Cons e es)
  then have "e \<noteq> []" "e \<noteq> ''.''" "e \<noteq> ''..''" by (simp_all add: plain_elem_def)
  with Cons show ?case by simp
qed

lemma Join_abs_path: "es \<noteq> [] \<Longrightarrow> CHR ''/'' # Join es ''/'' = abs_path es"
proof (induction es)
  case Nil
  then show ?case by simp
next
  case (Cons e es)
  show ?case
  proof (cases es)
    case Nil
    then show ?thesis by (simp add: abs_path_def)
  next
    case (Cons y ys)
    with Cons.IH show ?thesis by (simp add: abs_path_def)
  qed
qed

lemma Clean_abs_path:
  assumes "es \<noteq> []" "list_all plain_elem es"
  shows "Clean (abs_path es) = abs_path es"
proof -
  from assms(1) obtain e es' where es: "es = e # es'" by (cases es) auto
  have ne: "abs_path es \<noteq> []" and hd: "hd (abs_path es) = CHR ''/''"
    by (simp_all add: es abs_path_def)
  from assms(2) have "list_all (\<lambda>e. CHR ''/'' \<notin> set e) es"
    by (induction es) (simp_all add: plain_elem_def)
  then have sp: "split_sep CHR ''/'' (abs_path es) = [] # es"
    unfolding abs_path_def by (rule split_sep_abs_path)
  have "clean_elems True [] ([] # es) = es"
    using clean_elems_plain [OF assms(2), of True "[]"] by simp
  with ne hd sp Join_abs_path [OF assms(1)] show ?thesis
    by (simp add: Clean_def Let_def)
qed

lemma filepath_Join_home:
  assumes "es \<noteq> []" "list_all plain_elem es"
  shows "filepath_Join [abs_path es, ''.ssh'', ''id_rsa''] = abs_path es @ ''/.ssh/id_rsa''"
proof -
  from assms(1) obtain e es' where es: "es = e # es'" by (cases es) auto
  have ne: "abs_path es \<noteq> []" by (simp add: es abs_path_def)
  have j: "Join [abs_path es, ''.ssh'', ''id_rsa''] ''/'' = abs_path (es @ [''.ssh'', ''id_rsa''])"
    by (simp add: abs_path_def)
  have "plain_elem ''.ssh''" "plain_elem ''id_rsa''"
    unfolding plain_elem_def by simp_all
  with assms(2) have p: "list_all plain_elem (es @ [''.ssh'', ''id_rsa''])"
    by simp
  have "es @ [''.ssh'', ''id_rsa''] \<noteq> []" by simp
  from Clean_abs_path [OF this p]
  have "Clean (abs_path (es @ [''.ssh'', ''id_rsa''])) = abs_path (es @ [''.ssh'', ''id_rsa''])" .
  with ne j show ?thesis
    by (simp add: filepath_Join_def abs_path_def)
qed

lemma ex_exec_Path:
  "exec_Path (ex_proc pre k) ''ls'' = ''/bin/ls''"
  "exec_Path (ex_proc pre k) ''/bin/sh'' = ''/bin/sh''"
  "exec_Path (ex_proc pre k) ''xyzzy'' = ''xyzzy''"
  by (simp_all add: exec_Path_def filepath_Base_def ex_proc_def ex_LookPath_def)




section \<open>The properties\<close>

text \<open>
  C1 at the argument \<open>a b; id\<close>. \<open>Local.Run\<close> starts \<open>/bin/echo\<close> with that argument as
  the one argument it is. \<open>Remote.Run\<close> joins the command and its arguments by single
  spaces and hands the one string to the session: the argument reaches the remote side
  inside a command line, the same command line that the three arguments \<open>a\<close>, \<open>b;\<close>,
  \<open>id\<close> give, and is no longer an argument of its own, which is what C1 asks of
  every direct execution.
\<close>

theorem Remote_Run_joins_arguments:
  "started (trace (snd
     (Local_Run std (ex_proc ''exit status '' 0) ex_world ''/bin/echo'' [''a b; id'']))) =
     [(''/bin/echo'', [''/bin/echo'', ''a b; id''])] \<and>
   session_cmdLines (trace (snd (snd
     (Remote_Run ex_Remote (ex_net 0) ex_world ''/bin/echo'' [''a b; id''])))) =
     [''/bin/echo a b; id''] \<and>
   session_cmdLines (trace (snd (snd
     (Remote_Run ex_Remote (ex_net 0) ex_world ''/bin/echo'' [''a'', ''b;'', ''id''])))) =
     [''/bin/echo a b; id'']"
proof -
  have "exec_Path (ex_proc ''exit status '' 0) ''/bin/echo'' = ''/bin/echo''"
    by (simp add: exec_Path_def filepath_Base_def)
  then show ?thesis
    by (simp add: Local_Run_def Local_exec_started std_fields Remote_Run_def
          Remote_exec_cmdLines ex_connects ex_session ex_proc_ok ex_world_fields)
qed

text \<open>
  C2: for \<open>Run\<close> and \<open>Shell\<close> of both executors. When the command runs to its end and
  terminates normally with status \<open>k\<close> (zero or not), the call returns the exit code \<open>k\<close>
  and a \<open>nil\<close> error. When the local process cannot be started, or the remote run fails
  with an error that is no exit error, the call returns that error with empty outputs
  and the code 0 that no decoding has touched. A \<open>nil\<close> error on the one side and an
  error on the other keep the two outcomes apart.
\<close>

theorem exit_status_or_failure:
  "(runs_to_end (l_Stdout l) (l_Stderr l) p k \<longrightarrow>
      res_code (fst (Local_Run l p w c a)) = int k \<and> res_err (fst (Local_Run l p w c a)) = None \<and>
      res_code (fst (Local_Shell l p w s)) = int k \<and> res_err (fst (Local_Shell l p w s)) = None) \<and>
   (pipes_ok (l_Stdout l) (l_Stderr l) p \<and> Start_err p = Some e \<longrightarrow>
      fst (Local_Run l p w c a) = ([], [], 0, Some e) \<and>
      fst (Local_Shell l p w s) = ([], [], 0, Some e)) \<and>
   (connects r n \<and> session_runs_to_end (r_Stdout r) (r_Stderr r) (session n) k \<longrightarrow>
      (\<exists>out err. fst (Remote_Run r n w c a) = Some (out, err, int k, None)) \<and>
      (\<exists>out err. fst (Remote_Shell r n w s) = Some (out, err, int k, None))) \<and>
   (connects r n \<and> pipes_ok (r_Stdout r) (r_Stderr r) (session n) \<and>
    Wait_err (session n) = Some (OtherError m) \<longrightarrow>
      fst (Remote_Run r n w c a) = Some ([], [], 0, Some (OtherError m)) \<and>
      fst (Remote_Shell r n w s) = Some ([], [], 0, Some (OtherError m)))"
proof (intro conjI impI)
  assume run: "runs_to_end (l_Stdout l) (l_Stderr l) p k"
  then have d: "decode_status ''exit status '' (Wait_err p) = Inr (int k, None)"
    by (simp add: runs_to_end_def decode_status_exited)
  have "fst (Local_exec l p w c' a') =
          (captured (l_Stdout l) (out_bytes p), captured (l_Stderr l) (err_bytes p), int k, None)"
    for c' a'
    using run Local_exec_completed [OF _ _ _ d, where l = l and w = w and c = c' and a = a']
    by (simp add: runs_to_end_def)
  then show "res_code (fst (Local_Run l p w c a)) = int k"
    and "res_err (fst (Local_Run l p w c a)) = None"
    and "res_code (fst (Local_Shell l p w s)) = int k"
    and "res_err (fst (Local_Shell l p w s)) = None"
    by (simp_all add: Local_Run_def Local_Shell_def)
next
  assume "pipes_ok (l_Stdout l) (l_Stderr l) p \<and> Start_err p = Some e"
  then have "fst (Local_exec l p w c' a') = ([], [], 0, Some e)" for c' a'
    by (simp add: Local_exec_hooked Local_run_cmd_not_started failed_def)
  then show "fst (Local_Run l p w c a) = ([], [], 0, Some e)"
    and "fst (Local_Shell l p w s) = ([], [], 0, Some e)"
    by (simp_all add: Local_Run_def Local_Shell_def)
next
  assume run: "connects r n \<and> session_runs_to_end (r_Stdout r) (r_Stderr r) (session n) k"
  then have d: "decode_status ''Process exited with status '' (Wait_err (session n)) =
                  Inr (int k, None)"
    by (simp add: session_runs_to_end_def decode_status_exited)
  have "\<exists>out err. fst (Remote_exec r n w args) = Some (out, err, int k, None)" for args
    using run Remote_exec_completed [OF _ _ _ d, where r = r and w = w and args = args]
    by (simp add: session_runs_to_end_def)
  then show "\<exists>out err. fst (Remote_Run r n w c a) = Some (out, err, int k, None)"
    and "\<exists>out err. fst (Remote_Shell r n w s) = Some (out, err, int k, None)"
    by (simp_all add: Remote_Run_def Remote_Shell_def)
next
  assume broken: "connects r n \<and> pipes_ok (r_Stdout r) (r_Stderr r) (session n) \<and>
    Wait_err (session n) = Some (OtherError m)"
  then have d: "decode_status ''Process exited with status '' (Wait_err (session n)) =
                  Inl (OtherError m)"
    by simp
  have "fst (Remote_exec r n w args) = Some ([], [], 0, Some (OtherError m))" for args
    using broken Remote_exec_undecoded [OF _ _ d, where r = r and w = w and args = args] by (simp add: failed_def)
  then show "fst (Remote_Run r n w c a) = Some ([], [], 0, Some (OtherError m))"
    and "fst (Remote_Shell r n w s) = Some ([], [], 0, Some (OtherError m))"
    by (simp_all add: Remote_Run_def Remote_Shell_def)
qed

theorem exit_status_or_failure_witness:
  "res_code (fst (Local_Run std (ex_proc ''exit status '' 2) ex_world ''/bin/ls'' [''/xyzzy''])) = 2 \<and>
   res_err (fst (Local_Run std (ex_proc ''exit status '' 2) ex_world ''/bin/ls'' [''/xyzzy''])) = None \<and>
   res_code (fst (Local_Shell std (ex_proc ''exit status '' 2) ex_world ''exit 2'')) = 2 \<and>
   res_err (fst (Local_Shell std (ex_proc ''exit status '' 2) ex_world ''exit 2'')) = None \<and>
   fst (Local_Run std ex_proc_missing ex_world ''/xyzzy'' []) =
     ([], [], 0, Some (OtherError ''fork/exec /xyzzy: no such file or directory'')) \<and>
   fst (Local_Shell std ex_proc_missing ex_world ''exit 2'') =
     ([], [], 0, Some (OtherError ''fork/exec /xyzzy: no such file or directory'')) \<and>
   (\<exists>out err. fst (Remote_Run ex_Remote (ex_net 2) ex_world ''/bin/ls'' [''/xyzzy'']) =
               Some (out, err, 2, None)) \<and>
   (\<exists>out err. fst (Remote_Shell ex_Remote (ex_net 2) ex_world ''exit 2'') =
               Some (out, err, 2, None)) \<and>
   fst (Remote_Run ex_Remote ex_net_broken ex_world ''/bin/ls'' [''/xyzzy'']) =
     Some ([], [], 0, Some (OtherError ''wait: remote command exited without exit status'')) \<and>
   fst (Remote_Shell ex_Remote ex_net_broken ex_world ''exit 2'') =
     Some ([], [], 0, Some (OtherError ''wait: remote command exited without exit status''))"
proof -
  have two: "(2::nat) < 2 ^ 63" by simp
  note ran = exit_status_or_failure
    [of std "ex_proc ''exit status '' 2" 2 ex_world "''/bin/ls''" "[''/xyzzy'']" "''exit 2''"
        _ ex_Remote "ex_net 2"]
  note missing = exit_status_or_failure
    [of std ex_proc_missing _ ex_world "''/xyzzy''" "[]" "''exit 2''"
        "OtherError ''fork/exec /xyzzy: no such file or directory''"]
  note broken = exit_status_or_failure
    [of _ _ _ ex_world "''/bin/ls''" "[''/xyzzy'']" "''exit 2''" _ ex_Remote ex_net_broken
        "''wait: remote command exited without exit status''"]
  from ran [THEN conjunct1] ran [THEN conjunct2, THEN conjunct2, THEN conjunct1]
    missing [THEN conjunct2, THEN conjunct1]
    broken [THEN conjunct2, THEN conjunct2, THEN conjunct2]
  show ?thesis
    by (simp add: std_fields ex_runs_to_end [OF two] ex_connects ex_Remote_fields
          ex_proc_missing_fields ex_net_broken_fields)
qed

text \<open>
  C3, as the code has it: a configuration that names a shell gets an executor whose
  shell path is empty, since \<open>NewLocal\<close> assigns \<open>ShellExecutable\<close> only when the
  configured path is empty. C3 expects the configured path \<open>/bin/bash\<close> here.
\<close>

theorem NewLocal_configured_shell_lost:
  "lc_ShellExecutable ex_LocalConfig = ''/bin/bash'' \<and>
   l_ShellExecutable (NewLocal ex_LocalConfig) = []"
  by (simp add: NewLocal_def new_Local_def ex_LocalConfig_def)

text \<open>
  C4, as stated, fails: after a remote call that succeeded, the client connection that
  the call dialled is still open. \<open>Remote.close\<close> closes the session only, and the client
  is a local variable of \<open>Remote.open\<close> that nothing closes.
\<close>

theorem Remote_Run_leaves_client_open:
  "clients ex_world = [] \<and>
   clients (snd (snd (Remote_Run ex_Remote (ex_net 0) ex_world ''/bin/true'' []))) = [1]"
  by (simp add: Remote_Run_def Remote_exec_clients ex_connects ex_world_fields fresh_ex_world)

text \<open>
  C4, amended: after every \<open>Remote.Run\<close> or \<open>Remote.Shell\<close> call returns, on every exit
  path, the sessions that are open are those that were open before the call; a call
  that got as far as opening its session ends by closing that very session; and the
  session field, \<open>nil\<close> in every executor that \<open>NewRemote\<close> returns, is \<open>nil\<close> after the
  call whenever it was \<open>nil\<close> before it.
\<close>

theorem Remote_session_closed_on_return:
  "sessions (snd (snd (Remote_Run r n w c a))) = sessions w \<and>
   sessions (snd (snd (Remote_Shell r n w s))) = sessions w \<and>
   (connects r n \<longrightarrow>
      opened_and_closed (trace w) (trace (snd (snd (Remote_Run r n w c a)))) \<and>
      opened_and_closed (trace w) (trace (snd (snd (Remote_Shell r n w s))))) \<and>
   (sshSession r = None \<longrightarrow>
      sshSession (fst (snd (Remote_Run r n w c a))) = None \<and>
      sshSession (fst (snd (Remote_Shell r n w s))) = None) \<and>
   (case NewRemote os config of Inl e \<Rightarrow> True | Inr r0 \<Rightarrow> sshSession r0 = None)"
  unfolding Remote_Run_def Remote_Shell_def
  by (intro conjI impI Remote_exec_sessions Remote_exec_opened_and_closed
        Remote_exec_session_field NewRemote_session_nil)

theorem Remote_session_closed_on_return_witness:
  "sessions (snd (snd (Remote_Run ex_Remote (ex_net 0) ex_world ''/bin/true'' []))) = [] \<and>
   sessions (snd (snd (Remote_Shell ex_Remote (ex_net 0) ex_world ''exit 0''))) = [] \<and>
   opened_and_closed []
     (trace (snd (snd (Remote_Run ex_Remote (ex_net 0) ex_world ''/bin/true'' [])))) \<and>
   opened_and_closed []
     (trace (snd (snd (Remote_Shell ex_Remote (ex_net 0) ex_world ''exit 0'')))) \<and>
   sshSession (fst (snd (Remote_Run ex_Remote (ex_net 0) ex_world ''/bin/true'' []))) = None \<and>
   sshSession (fst (snd (Remote_Shell ex_Remote (ex_net 0) ex_world ''exit 0''))) = None \<and>
   NewRemote ex_users ex_RemoteConfig = Inr ex_Remote \<and> sshSession ex_Remote = None"
proof -
  have new: "NewRemote ex_users ex_RemoteConfig = Inr ex_Remote"
    by (simp add: NewRemote_def ex_users_def ex_RemoteConfig_def ex_Remote_def Let_def
          defaultPrivateKeyFilename_def filepath_Join_def Clean_def
          DefaultShellExecutable_def defaultSSHHostname_def defaultSSHPort_def
          defaultSSHKeyfileName_def)
  from Remote_session_closed_on_return
         [of ex_Remote "ex_net 0" ex_world "''/bin/true''" "[]" "''exit 0''"
             ex_users ex_RemoteConfig]
  show ?thesis
    by (simp add: ex_connects ex_world_fields ex_Remote_fields new)
qed

text \<open>
  C5 at a call with both streams captured and a command that runs to its end.
  \<open>Local.exec\<close> makes the pipes, starts the process, reads the output pipe and then the
  error pipe to their ends, and waits last: no read comes after the wait.
  \<open>Remote.exec\<close> calls \<open>session.Run\<close>, which starts the command and waits for its
  termination, before it reads either pipe: the wait comes first and the two reads
  after it, where C5 asks for the pipes to be drained before the wait.
\<close>

theorem Remote_Run_waits_before_draining:
  "r_Stdout ex_Remote = None \<and> r_Stderr ex_Remote = None \<and>
   drained_before_wait
     (trace (snd (Local_Run std (ex_proc ''exit status '' 0) ex_world ''/bin/ls'' [''/bin'']))) \<and>
   trace (snd (snd (Remote_Run ex_Remote (ex_net 0) ex_world ''/bin/ls'' [''/bin'']))) =
     [EvDial ''alice'' ''localhost:22'', EvNewSession 2, EvStdoutPipe, EvStderrPipe,
      EvSessionRun 2 ''/bin/ls /bin'', EvReadAllStdout, EvReadAllStderr, EvSessionClose 2] \<and>
   \<not> drained_before_wait
       (trace (snd (snd (Remote_Run ex_Remote (ex_net 0) ex_world ''/bin/ls'' [''/bin'']))))"
proof -
  have zero: "(0::nat) < 2 ^ 63" by simp
  have port: "Itoa 22 = ''22''" by code_simp
  have s: "fresh (dialled ex_Remote ex_world) = 2"
    by (simp add: fresh_def ex_world_fields fresh_ex_world)
  have d: "dial_event ex_Remote = EvDial ''alice'' ''localhost:22''"
    by (simp add: dial_event_def ex_Remote_def port)
  have loc: "drained_before_wait
     (trace (snd (Local_Run std (ex_proc ''exit status '' 0) ex_world ''/bin/ls'' [''/bin''])))"
    unfolding Local_Run_def
    by (simp add: Local_exec_waited_trace std_fields ex_proc_ok ex_world_fields
          hook_events_def read_events_def)
  have "trace (snd (snd (Remote_Run ex_Remote (ex_net 0) ex_world ''/bin/ls'' [''/bin'']))) =
     [EvDial ''alice'' ''localhost:22'', EvNewSession 2, EvStdoutPipe, EvStderrPipe,
      EvSessionRun 2 ''/bin/ls /bin'', EvReadAllStdout, EvReadAllStderr, EvSessionClose 2]"
    unfolding Remote_Run_def
    by (simp add: Remote_exec_completed_trace [OF _ _ _ ex_decoded [OF zero]]
          ex_connects ex_session ex_proc_ok ex_Remote_fields ex_world_fields s d
          hook_events_def read_events_def)
  with loc show ?thesis by (simp add: ex_Remote_fields)
qed

text \<open>
  C6: for every command line \<open>s\<close>, \<open>Local.Shell(s)\<close> is \<open>Local.Run\<close> of the executor's
  shell with the two arguments \<open>-c\<close> and \<open>s\<close>: both return the same four values and leave
  the same world, and the one program started (when the pipes could be made) is the
  shell, at the path the library settles on for it, with the argument vector shell,
  \<open>-c\<close>, \<open>s\<close>, the command line being one argument.
\<close>

theorem Local_Shell_is_Run_of_shell:
  "Local_Shell l p w s = Local_Run l p w (l_ShellExecutable l) [''-c'', s] \<and>
   started (trace (snd (Local_Shell l p w s))) =
     started (trace w) @
     (if pipes_ok (l_Stdout l) (l_Stderr l) p
      then [(exec_Path p (l_ShellExecutable l), [l_ShellExecutable l, ''-c'', s])] else [])"
  by (simp add: Local_Shell_def Local_Run_def Local_exec_started)

theorem Local_Shell_is_Run_of_shell_witness:
  "Local_Shell std (ex_proc ''exit status '' 6) ex_world ''echo a b; exit 6'' =
     Local_Run std (ex_proc ''exit status '' 6) ex_world ''/bin/sh'' [''-c'', ''echo a b; exit 6''] \<and>
   started (trace (snd (Local_Shell std (ex_proc ''exit status '' 6) ex_world ''echo a b; exit 6''))) =
     [(''/bin/sh'', [''/bin/sh'', ''-c'', ''echo a b; exit 6''])]"
proof -
  have sh: "l_ShellExecutable std = ''/bin/sh''" "l_Stdout std = None" "l_Stderr std = None"
    by (simp_all add: std_def NewLocal_def new_Local_def DefaultShellExecutable_def)
  have ok: "pipes_ok None None (ex_proc ''exit status '' 6)"
    by (simp add: pipes_ok_def ex_proc_def)
  have tr: "trace ex_world = []" by (simp add: ex_world_def)
  have path: "exec_Path (ex_proc ''exit status '' 6) ''/bin/sh'' = ''/bin/sh''"
    by (simp add: exec_Path_def filepath_Base_def)
  note t = Local_Shell_is_Run_of_shell
         [of std "ex_proc ''exit status '' 6" ex_world "''echo a b; exit 6''"]
  show ?thesis
  proof (intro conjI)
    show "Local_Shell std (ex_proc ''exit status '' 6) ex_world ''echo a b; exit 6'' =
          Local_Run std (ex_proc ''exit status '' 6) ex_world ''/bin/sh'' [''-c'', ''echo a b; exit 6'']"
      using t [THEN conjunct1] by (simp only: sh)
    show "started (trace (snd (Local_Shell std (ex_proc ''exit status '' 6) ex_world
                                 ''echo a b; exit 6''))) =
          [(''/bin/sh'', [''/bin/sh'', ''-c'', ''echo a b; exit 6''])]"
      using t [THEN conjunct2] by (simp only: sh ok tr path started.simps if_True append_Nil)
  qed
qed




text \<open>
  C8: \<open>NewRemote\<close> fills what the configuration leaves out. In the executor it returns,
  an empty hostname has become \<open>localhost\<close>, a port of 0 has become 22, an empty username
  has become the name of the current user of the operating system, and, only when both
  the password and the key path are empty, the key path is the join of the home
  directory of that user with \<open>.ssh\<close> and \<open>id_rsa\<close>, which for a clean rooted home is
  the home followed by \<open>/.ssh/id_rsa\<close>; everything configured is kept. When the current
  user, or the home of the user for the default key path, cannot be resolved,
  \<open>NewRemote\<close> returns that error and no executor; it fails for no other reason.
\<close>

theorem NewRemote_defaults:
  "(resolved_Username os (rc_Credentials config) = Inl e \<longrightarrow> NewRemote os config = Inl e) \<and>
   (resolved_Username os (rc_Credentials config) = Inr name \<and>
    Password (rc_Credentials config) = [] \<and> PrivateKeyFilename (rc_Credentials config) = [] \<and>
    user_Lookup os name = Inl e \<longrightarrow> NewRemote os config = Inl e) \<and>
   (NewRemote os config = Inl e \<longrightarrow>
      resolved_Username os (rc_Credentials config) = Inl e \<or>
      (Password (rc_Credentials config) = [] \<and> PrivateKeyFilename (rc_Credentials config) = [] \<and>
       (\<exists>nm. resolved_Username os (rc_Credentials config) = Inr nm \<and> user_Lookup os nm = Inl e))) \<and>
   (NewRemote os config = Inr r \<longrightarrow>
      r_ShellExecutable r =
        (if rc_ShellExecutable config = [] then ''/bin/sh'' else rc_ShellExecutable config) \<and>
      Hostname (r_Credentials r) =
        (if Hostname (rc_Credentials config) = [] then ''localhost''
         else Hostname (rc_Credentials config)) \<and>
      Port (r_Credentials r) =
        (if Port (rc_Credentials config) = 0 then 22 else Port (rc_Credentials config)) \<and>
      resolved_Username os (rc_Credentials config) = Inr (Username (r_Credentials r)) \<and>
      Password (r_Credentials r) = Password (rc_Credentials config) \<and>
      (if Password (rc_Credentials config) = [] \<and> PrivateKeyFilename (rc_Credentials config) = []
       then (\<exists>u. user_Lookup os (Username (r_Credentials r)) = Inr u \<and>
                 PrivateKeyFilename (r_Credentials r) =
                   filepath_Join [HomeDir u, ''.ssh'', ''id_rsa''])
       else PrivateKeyFilename (r_Credentials r) = PrivateKeyFilename (rc_Credentials config))) \<and>
   (es \<noteq> [] \<and> list_all plain_elem es \<longrightarrow>
      filepath_Join [abs_path es, ''.ssh'', ''id_rsa''] = abs_path es @ ''/.ssh/id_rsa'')"
proof -
  have one: "resolved_Username os (rc_Credentials config) = Inl e \<longrightarrow> NewRemote os config = Inl e"
    by (simp add: NewRemote_resolved)
  have two: "resolved_Username os (rc_Credentials config) = Inr name \<and>
    Password (rc_Credentials config) = [] \<and> PrivateKeyFilename (rc_Credentials config) = [] \<and>
    user_Lookup os name = Inl e \<longrightarrow> NewRemote os config = Inl e"
    by (simp add: NewRemote_resolved)
  have three: "NewRemote os config = Inl e \<longrightarrow>
      resolved_Username os (rc_Credentials config) = Inl e \<or>
      (Password (rc_Credentials config) = [] \<and> PrivateKeyFilename (rc_Credentials config) = [] \<and>
       (\<exists>nm. resolved_Username os (rc_Credentials config) = Inr nm \<and> user_Lookup os nm = Inl e))"
  proof
    assume fails: "NewRemote os config = Inl e"
    show "resolved_Username os (rc_Credentials config) = Inl e \<or>
      (Password (rc_Credentials config) = [] \<and> PrivateKeyFilename (rc_Credentials config) = [] \<and>
       (\<exists>nm. resolved_Username os (rc_Credentials config) = Inr nm \<and> user_Lookup os nm = Inl e))"
    proof (cases "resolved_Username os (rc_Credentials config)")
      case (Inl e')
      with fails show ?thesis by (simp add: NewRemote_resolved)
    next
      case (Inr nm)
      with fails show ?thesis
        by (cases "user_Lookup os nm") (simp_all add: NewRemote_resolved split: if_splits)
    qed
  qed
  have four: "NewRemote os config = Inr r \<longrightarrow>
      r_ShellExecutable r =
        (if rc_ShellExecutable config = [] then ''/bin/sh'' else rc_ShellExecutable config) \<and>
      Hostname (r_Credentials r) =
        (if Hostname (rc_Credentials config) = [] then ''localhost''
         else Hostname (rc_Credentials config)) \<and>
      Port (r_Credentials r) =
        (if Port (rc_Credentials config) = 0 then 22 else Port (rc_Credentials config)) \<and>
      resolved_Username os (rc_Credentials config) = Inr (Username (r_Credentials r)) \<and>
      Password (r_Credentials r) = Password (rc_Credentials config) \<and>
      (if Password (rc_Credentials config) = [] \<and> PrivateKeyFilename (rc_Credentials config) = []
       then (\<exists>u. user_Lookup os (Username (r_Credentials r)) = Inr u \<and>
                 PrivateKeyFilename (r_Credentials r) =
                   filepath_Join [HomeDir u, ''.ssh'', ''id_rsa''])
       else PrivateKeyFilename (r_Credentials r) = PrivateKeyFilename (rc_Credentials config))"
  proof
    assume ok: "NewRemote os config = Inr r"
    show "r_ShellExecutable r =
        (if rc_ShellExecutable config = [] then ''/bin/sh'' else rc_ShellExecutable config) \<and>
      Hostname (r_Credentials r) =
        (if Hostname (rc_Credentials config) = [] then ''localhost''
         else Hostname (rc_Credentials config)) \<and>
      Port (r_Credentials r) =
        (if Port (rc_Credentials config) = 0 then 22 else Port (rc_Credentials config)) \<and>
      resolved_Username os (rc_Credentials config) = Inr (Username (r_Credentials r)) \<and>
      Password (r_Credentials r) = Password (rc_Credentials config) \<and>
      (if Password (rc_Credentials config) = [] \<and> PrivateKeyFilename (rc_Credentials config) = []
       then (\<exists>u. user_Lookup os (Username (r_Credentials r)) = Inr u \<and>
                 PrivateKeyFilename (r_Credentials r) =
                   filepath_Join [HomeDir u, ''.ssh'', ''id_rsa''])
       else PrivateKeyFilename (r_Credentials r) = PrivateKeyFilename (rc_Credentials config))"
    proof (cases "resolved_Username os (rc_Credentials config)")
      case (Inl e')
      with ok show ?thesis by (simp add: NewRemote_resolved)
    next
      case (Inr nm)
      show ?thesis
      proof (cases "Password (rc_Credentials config) = [] \<and>
                    PrivateKeyFilename (rc_Credentials config) = []")
        case True
        with ok Inr show ?thesis
          by (cases "user_Lookup os nm") (auto simp add: NewRemote_resolved)
      next
        case False
        with ok Inr show ?thesis
          by (auto simp add: NewRemote_resolved)
      qed
    qed
  qed
  have five: "es \<noteq> [] \<and> list_all plain_elem es \<longrightarrow>
      filepath_Join [abs_path es, ''.ssh'', ''id_rsa''] = abs_path es @ ''/.ssh/id_rsa''"
    by (simp add: filepath_Join_home)
  from one two three four five show ?thesis by (intro conjI)
qed

theorem NewRemote_defaults_witness:
  "NewRemote ex_users_none ex_RemoteConfig = Inl (OtherError ''user: Current not implemented'') \<and>
   NewRemote ex_users ex_RemoteConfig_bob = Inl (OtherError ''user: unknown user bob'') \<and>
   NewRemote ex_users ex_RemoteConfig = Inr ex_Remote \<and>
   Hostname (r_Credentials ex_Remote) = ''localhost'' \<and> Port (r_Credentials ex_Remote) = 22 \<and>
   Username (r_Credentials ex_Remote) = ''alice'' \<and>
   PrivateKeyFilename (r_Credentials ex_Remote) = ''/home/alice/.ssh/id_rsa'' \<and>
   filepath_Join [''/home/alice'', ''.ssh'', ''id_rsa''] = ''/home/alice/.ssh/id_rsa'' \<and>
   (\<exists>r. NewRemote ex_users_none ex_RemoteConfig_password = Inr r \<and>
        r_ShellExecutable r = ''/bin/bash'' \<and> Hostname (r_Credentials r) = ''example.org'' \<and>
        Port (r_Credentials r) = 2222 \<and> Username (r_Credentials r) = ''bob'' \<and>
        Password (r_Credentials r) = ''secret'' \<and> PrivateKeyFilename (r_Credentials r) = [])"
proof -
  have none: "resolved_Username ex_users_none (rc_Credentials ex_RemoteConfig) =
                Inl (OtherError ''user: Current not implemented'')"
    by (simp add: resolved_Username_def ex_users_none_def ex_RemoteConfig_def)
  have bob: "resolved_Username ex_users (rc_Credentials ex_RemoteConfig_bob) = Inr ''bob''"
    "Password (rc_Credentials ex_RemoteConfig_bob) = []"
    "PrivateKeyFilename (rc_Credentials ex_RemoteConfig_bob) = []"
    "user_Lookup ex_users ''bob'' = Inl (OtherError ''user: unknown user bob'')"
    by (simp_all add: resolved_Username_def ex_users_def ex_RemoteConfig_bob_def
          ex_RemoteConfig_def)
  have new: "NewRemote ex_users ex_RemoteConfig = Inr ex_Remote"
    by (simp add: NewRemote_def ex_users_def ex_RemoteConfig_def ex_Remote_def Let_def
          defaultPrivateKeyFilename_def filepath_Join_def Clean_def
          DefaultShellExecutable_def defaultSSHHostname_def defaultSSHPort_def
          defaultSSHKeyfileName_def)
  let ?rp = "\<lparr>r_ShellExecutable = ''/bin/bash'', r_Stdin = None, r_Stdout = Some 1,
              r_Stderr = None,
              r_Credentials = \<lparr>Hostname = ''example.org'', Port = 2222, Username = ''bob'',
                                Password = ''secret'', PrivateKeyFilename = []\<rparr>,
              sshSession = None\<rparr>"
  have pw: "NewRemote ex_users_none ex_RemoteConfig_password = Inr ?rp"
    by (simp add: NewRemote_def ex_RemoteConfig_password_def Let_def)
  have home: "abs_path [''home'', ''alice''] = ''/home/alice''"
    "list_all plain_elem [''home'', ''alice'']"
    by (simp_all add: abs_path_def plain_elem_def)
  have cfg: "rc_ShellExecutable ex_RemoteConfig = []"
    "Hostname (rc_Credentials ex_RemoteConfig) = []" "Port (rc_Credentials ex_RemoteConfig) = 0"
    "Password (rc_Credentials ex_RemoteConfig) = []"
    "PrivateKeyFilename (rc_Credentials ex_RemoteConfig) = []"
    "rc_ShellExecutable ex_RemoteConfig_password = ''/bin/bash''"
    "Hostname (rc_Credentials ex_RemoteConfig_password) = ''example.org''"
    "Port (rc_Credentials ex_RemoteConfig_password) = 2222"
    "Password (rc_Credentials ex_RemoteConfig_password) = ''secret''"
    "PrivateKeyFilename (rc_Credentials ex_RemoteConfig_password) = []"
    "resolved_Username ex_users_none (rc_Credentials ex_RemoteConfig_password) = Inr ''bob''"
    by (simp_all add: ex_RemoteConfig_def ex_RemoteConfig_password_def resolved_Username_def)
  note a = NewRemote_defaults
    [of ex_users_none ex_RemoteConfig "OtherError ''user: Current not implemented''"]
  note b = NewRemote_defaults
    [of ex_users ex_RemoteConfig_bob "OtherError ''user: unknown user bob''" "''bob''"]
  note c = NewRemote_defaults
    [of ex_users ex_RemoteConfig _ _ ex_Remote "[''home'', ''alice'']"]
  note d = NewRemote_defaults [of ex_users_none ex_RemoteConfig_password _ _ ?rp]
  from a [THEN conjunct1] none
  have w1: "NewRemote ex_users_none ex_RemoteConfig =
              Inl (OtherError ''user: Current not implemented'')"
    by simp
  from b [THEN conjunct2, THEN conjunct1] bob
  have w2: "NewRemote ex_users ex_RemoteConfig_bob = Inl (OtherError ''user: unknown user bob'')"
    by simp
  from c [THEN conjunct2, THEN conjunct2, THEN conjunct2, THEN conjunct1] new
  have w3: "Hostname (r_Credentials ex_Remote) = ''localhost'' \<and>
            Port (r_Credentials ex_Remote) = 22"
    by (simp add: cfg)
  have w4: "Username (r_Credentials ex_Remote) = ''alice'' \<and>
            PrivateKeyFilename (r_Credentials ex_Remote) = ''/home/alice/.ssh/id_rsa''"
    by (simp add: ex_Remote_def)
  from c [THEN conjunct2, THEN conjunct2, THEN conjunct2, THEN conjunct2] home
  have w5: "filepath_Join [''/home/alice'', ''.ssh'', ''id_rsa''] = ''/home/alice/.ssh/id_rsa''"
    by simp
  from d [THEN conjunct2, THEN conjunct2, THEN conjunct2, THEN conjunct1] pw
  have w6: "r_ShellExecutable ?rp = ''/bin/bash'' \<and> Hostname (r_Credentials ?rp) = ''example.org'' \<and>
            Port (r_Credentials ?rp) = 2222 \<and> Username (r_Credentials ?rp) = ''bob'' \<and>
            Password (r_Credentials ?rp) = ''secret'' \<and> PrivateKeyFilename (r_Credentials ?rp) = []"
    by (simp add: cfg)
  from w6 pw have w7: "\<exists>r. NewRemote ex_users_none ex_RemoteConfig_password = Inr r \<and>
        r_ShellExecutable r = ''/bin/bash'' \<and> Hostname (r_Credentials r) = ''example.org'' \<and>
        Port (r_Credentials r) = 2222 \<and> Username (r_Credentials r) = ''bob'' \<and>
        Password (r_Credentials r) = ''secret'' \<and> PrivateKeyFilename (r_Credentials r) = []"
    by blast
  from w1 w2 new w3 w4 w5 w7 show ?thesis by (intro conjI) blast+
qed

text \<open>
  C9: every remote call authenticates through \<open>getSSHAuths\<close>, which settles on one
  strategy and returns one method. A configured password wins, whatever the
  environment. Without a password, a set agent socket wins: the one method carries
  every identity the agent offers, and a failure to reach the agent or to list its
  identities is the result, the key file not being tried. Without either, the
  configured key file is read and parsed, and a failure of the one or of the other is
  returned as an error whose text names the path of the key file. An error of this
  step is the error of the whole call.
\<close>

theorem getSSHAuths_one_strategy:
  "(Password (r_Credentials r) \<noteq> [] \<longrightarrow>
      getSSHAuths r env = Inr [AuthPassword (Password (r_Credentials r))]) \<and>
   (Password (r_Credentials r) = [] \<and> Getenv_SSH_AUTH_SOCK env \<noteq> [] \<and>
    agent_Dial env (Getenv_SSH_AUTH_SOCK env) = None \<and> agent_Signers env = Inr signers \<longrightarrow>
      getSSHAuths r env = Inr [AuthPublicKeys signers]) \<and>
   (Password (r_Credentials r) = [] \<and> Getenv_SSH_AUTH_SOCK env \<noteq> [] \<and>
    agent_Dial env (Getenv_SSH_AUTH_SOCK env) = Some e \<longrightarrow>
      getSSHAuths r env = Inl e) \<and>
   (Password (r_Credentials r) = [] \<and> Getenv_SSH_AUTH_SOCK env \<noteq> [] \<and>
    agent_Dial env (Getenv_SSH_AUTH_SOCK env) = None \<and> agent_Signers env = Inl e \<longrightarrow>
      getSSHAuths r env = Inl e) \<and>
   (Password (r_Credentials r) = [] \<and> Getenv_SSH_AUTH_SOCK env = [] \<and>
    ReadFile env (PrivateKeyFilename (r_Credentials r)) = Inl e \<longrightarrow>
      getSSHAuths r env =
        Inl (key_file_error ''read'' (PrivateKeyFilename (r_Credentials r)) e)) \<and>
   (Password (r_Credentials r) = [] \<and> Getenv_SSH_AUTH_SOCK env = [] \<and>
    ReadFile env (PrivateKeyFilename (r_Credentials r)) = Inr keyBuf \<and>
    ParsePrivateKey env keyBuf = Inl e \<longrightarrow>
      getSSHAuths r env =
        Inl (key_file_error ''use'' (PrivateKeyFilename (r_Credentials r)) e)) \<and>
   (Password (r_Credentials r) = [] \<and> Getenv_SSH_AUTH_SOCK env = [] \<and>
    ReadFile env (PrivateKeyFilename (r_Credentials r)) = Inr keyBuf \<and>
    ParsePrivateKey env keyBuf = Inr key \<longrightarrow>
      getSSHAuths r env = Inr [AuthPublicKeys [key]]) \<and>
   (case getSSHAuths r env of Inl err \<Rightarrow> True | Inr auths \<Rightarrow> length auths = 1) \<and>
   (getSSHAuths r (auth n) = Inl e \<longrightarrow>
      fst (Remote_Run r n w c a) = Some ([], [], 0, Some e) \<and>
      fst (Remote_Shell r n w s) = Some ([], [], 0, Some e))"
proof (intro conjI impI)
  show "case getSSHAuths r env of Inl err \<Rightarrow> True | Inr auths \<Rightarrow> length auths = 1"
    by (simp add: getSSHAuths_def split: sum.splits option.splits)
next
  assume "getSSHAuths r (auth n) = Inl e"
  then have "fst (Remote_exec r n w args) = Some ([], [], 0, Some e)" for args
    by (simp add: Remote_exec_not_opened Remote_open_auth_failed failed_def)
  then show "fst (Remote_Run r n w c a) = Some ([], [], 0, Some e)"
    and "fst (Remote_Shell r n w s) = Some ([], [], 0, Some e)"
    by (simp_all add: Remote_Run_def Remote_Shell_def)
qed (simp_all add: getSSHAuths_def key_file_error_def)

theorem getSSHAuths_one_strategy_witness:
  "getSSHAuths ex_Remote_password ex_auth_agent = Inr [AuthPassword ''secret''] \<and>
   getSSHAuths ex_Remote ex_auth_agent = Inr [AuthPublicKeys [3, 4]] \<and>
   ReadFile ex_auth_agent_down ''/home/alice/.ssh/id_rsa'' = Inr ''KEY'' \<and>
   getSSHAuths ex_Remote ex_auth_agent_down =
     Inl (OtherError ''dial unix: no such file or directory'') \<and>
   getSSHAuths ex_Remote_no_key ex_auth =
     Inl (OtherError ''run: could not read private key file '/nokey': open /nokey: no such file or directory'') \<and>
   getSSHAuths ex_Remote ex_auth_bad_key =
     Inl (OtherError ''run: could not use private key file '/home/alice/.ssh/id_rsa': ssh: no key found'') \<and>
   getSSHAuths ex_Remote ex_auth = Inr [AuthPublicKeys [7]]"
proof -
  have pw: "Password (r_Credentials ex_Remote_password) = ''secret''"
    "Password (r_Credentials ex_Remote) = []" "Password (r_Credentials ex_Remote_no_key) = []"
    "PrivateKeyFilename (r_Credentials ex_Remote) = ''/home/alice/.ssh/id_rsa''"
    "PrivateKeyFilename (r_Credentials ex_Remote_no_key) = ''/nokey''"
    by (simp_all add: ex_Remote_password_def ex_Remote_no_key_def ex_Remote_def)
  have env: "Getenv_SSH_AUTH_SOCK ex_auth_agent = ''/tmp/agent.sock''"
    "agent_Dial ex_auth_agent sock = None" "agent_Signers ex_auth_agent = Inr [3, 4]"
    "Getenv_SSH_AUTH_SOCK ex_auth_agent_down = ''/tmp/agent.sock''"
    "agent_Dial ex_auth_agent_down sock = Some (OtherError ''dial unix: no such file or directory'')"
    "ReadFile ex_auth_agent_down ''/home/alice/.ssh/id_rsa'' = Inr ''KEY''"
    "Getenv_SSH_AUTH_SOCK ex_auth = []" "Getenv_SSH_AUTH_SOCK ex_auth_bad_key = []"
    "ReadFile ex_auth ''/nokey'' = Inl (OtherError ''open /nokey: no such file or directory'')"
    "ReadFile ex_auth ''/home/alice/.ssh/id_rsa'' = Inr ''KEY''"
    "ReadFile ex_auth_bad_key ''/home/alice/.ssh/id_rsa'' = Inr ''garbage''"
    "ParsePrivateKey ex_auth_bad_key ''garbage'' = Inl (OtherError ''ssh: no key found'')"
    "ParsePrivateKey ex_auth ''KEY'' = Inr 7"
    for sock
    by (simp_all add: ex_auth_agent_def ex_auth_agent_down_def ex_auth_bad_key_def ex_auth_def)
  note a = getSSHAuths_one_strategy [of ex_Remote_password ex_auth_agent]
  note b = getSSHAuths_one_strategy [of ex_Remote ex_auth_agent "[3, 4]"]
  note c = getSSHAuths_one_strategy
    [of ex_Remote ex_auth_agent_down _ "OtherError ''dial unix: no such file or directory''"]
  note d = getSSHAuths_one_strategy
    [of ex_Remote_no_key ex_auth _ "OtherError ''open /nokey: no such file or directory''"]
  note e = getSSHAuths_one_strategy
    [of ex_Remote ex_auth_bad_key _ "OtherError ''ssh: no key found''" "''garbage''"]
  note f = getSSHAuths_one_strategy [of ex_Remote ex_auth _ _ "''KEY''" 7]
  from a [THEN conjunct1] b [THEN conjunct2, THEN conjunct1]
    c [THEN conjunct2, THEN conjunct2, THEN conjunct1]
    d [THEN conjunct2, THEN conjunct2, THEN conjunct2, THEN conjunct2, THEN conjunct1]
    e [THEN conjunct2, THEN conjunct2, THEN conjunct2, THEN conjunct2, THEN conjunct2,
       THEN conjunct1]
    f [THEN conjunct2, THEN conjunct2, THEN conjunct2, THEN conjunct2, THEN conjunct2,
       THEN conjunct2, THEN conjunct1]
  show ?thesis
    by (simp add: pw env key_file_error_def)
qed

text \<open>
  C10: whenever \<open>Run\<close> or \<open>Shell\<close> of a local or a remote executor, or the package-level
  \<open>Run\<close> or \<open>Shell\<close>, returns an error that is not \<open>nil\<close>, the exit code it returns is 0; so
  an exit code other than 0 comes with a \<open>nil\<close> error only. A remote call never ends in
  the panic of a missing session.
\<close>

theorem error_comes_with_code_zero:
  "(res_err (fst (Local_Run l p w c a)) \<noteq> None \<longrightarrow> res_code (fst (Local_Run l p w c a)) = 0) \<and>
   (res_err (fst (Local_Shell l p w s)) \<noteq> None \<longrightarrow> res_code (fst (Local_Shell l p w s)) = 0) \<and>
   (res_err (fst (Run p w c a)) \<noteq> None \<longrightarrow> res_code (fst (Run p w c a)) = 0) \<and>
   (res_err (fst (Shell p w s)) \<noteq> None \<longrightarrow> res_code (fst (Shell p w s)) = 0) \<and>
   (\<exists>res. fst (Remote_Run r n w c a) = Some res \<and> (res_err res \<noteq> None \<longrightarrow> res_code res = 0)) \<and>
   (\<exists>res. fst (Remote_Shell r n w s) = Some res \<and> (res_err res \<noteq> None \<longrightarrow> res_code res = 0))"
proof -
  have loc: "res_err (fst (Local_exec l' p w c' a')) \<noteq> None \<longrightarrow>
             res_code (fst (Local_exec l' p w c' a')) = 0" for l' c' a'
    using Local_exec_err_code [of l' p w c' a'] by auto
  have rem: "\<exists>res. fst (Remote_exec r n w args) = Some res \<and>
                   (res_err res \<noteq> None \<longrightarrow> res_code res = 0)" for args
    using Remote_exec_err_code [of r n w args]
    by (cases "fst (Remote_exec r n w args)") auto
  show ?thesis
    unfolding Local_Run_def Local_Shell_def Run_def Shell_def Remote_Run_def Remote_Shell_def
    by (intro conjI loc rem)
qed

theorem error_comes_with_code_zero_witness:
  "res_err (fst (Local_Run std ex_proc_missing ex_world ''/xyzzy'' [])) \<noteq> None \<and>
   res_code (fst (Local_Run std ex_proc_missing ex_world ''/xyzzy'' [])) = 0 \<and>
   res_err (fst (Local_Shell std ex_proc_missing ex_world ''exit 3'')) \<noteq> None \<and>
   res_code (fst (Local_Shell std ex_proc_missing ex_world ''exit 3'')) = 0 \<and>
   res_err (fst (Run ex_proc_missing ex_world ''/xyzzy'' [])) \<noteq> None \<and>
   res_code (fst (Run ex_proc_missing ex_world ''/xyzzy'' [])) = 0 \<and>
   res_err (fst (Shell ex_proc_missing ex_world ''exit 3'')) \<noteq> None \<and>
   res_code (fst (Shell ex_proc_missing ex_world ''exit 3'')) = 0 \<and>
   (\<exists>res. fst (Remote_Run ex_Remote ex_net_broken ex_world ''/bin/ls'' []) = Some res \<and>
          res_err res \<noteq> None \<and> res_code res = 0) \<and>
   (\<exists>res. fst (Remote_Shell ex_Remote ex_net_broken ex_world ''exit 3'') = Some res \<and>
          res_err res \<noteq> None \<and> res_code res = 0)"
proof -
  have std: "l_Stdout std = None" "l_Stderr std = None"
    by (simp_all add: std_def NewLocal_def new_Local_def)
  have ok: "pipes_ok None None ex_proc_missing"
    by (simp add: pipes_ok_def ex_proc_missing_def)
  have loc: "res_err (fst (Local_exec std ex_proc_missing ex_world c a)) \<noteq> None" for c a
    using ok by (simp add: Local_exec_hooked std Local_run_cmd_not_started ex_proc_missing_def)
  have auth: "getSSHAuths ex_Remote (auth ex_net_broken) = Inr [AuthPublicKeys [7]]"
    by (simp add: getSSHAuths_def ex_Remote_def ex_net_broken_def ex_auth_def)
  have conn: "connects ex_Remote ex_net_broken"
    by (simp add: connects_def auth) (simp add: ex_net_broken_def)
  have hooked: "pipes_ok (r_Stdout ex_Remote) (r_Stderr ex_Remote) (session ex_net_broken)"
    by (simp add: pipes_ok_def ex_net_broken_def ex_proc_def)
  have dec: "decode_status ''Process exited with status '' (Wait_err (session ex_net_broken)) =
               Inl (OtherError ''wait: remote command exited without exit status'')"
    by (simp add: ex_net_broken_def)
  have rem: "fst (Remote_exec ex_Remote ex_net_broken ex_world args) =
               Some (failed (OtherError ''wait: remote command exited without exit status''))"
    for args
    using conn hooked
    by (simp add: Remote_exec_connected Remote_exec_body_hooked
          Remote_run_session_undecoded [OF dec])
  from error_comes_with_code_zero
         [of std ex_proc_missing ex_world "''/xyzzy''" "[]" "''exit 3''"
             ex_Remote ex_net_broken]
  show ?thesis
    using loc rem
    by (simp add: Local_Run_def Local_Shell_def Run_def Shell_def Remote_Run_def
          Remote_Shell_def)
qed

end
